theory Spec2Isabelle
  imports Main "HOL-Library.AList" "HOL-Library.Monad_Syntax"
begin

section \<open>JavaScript values shared by the agent and the server\<close>

text \<open>
  JavaScript numbers are modelled as \<open>int\<close>: every number the modelled code handles is a
  count of lines, files, hours or activities. A JavaScript object used as a dictionary
  (\<open>Record<K, V>\<close>) is an association list in insertion order: \<open>o[k]\<close> is
  \<open>map_of o k\<close>, \<open>o[k] = v\<close> is \<open>AList.update k v o\<close> (the key keeps its
  place, a new key goes last) and \<open>delete o[k]\<close> is \<open>AList.delete k o\<close>.
  Strings are lists of 8-bit characters.
\<close>

datatype error = GitError | IOError | SyntaxError | TypeError | ConfigError

definition isDigit :: "char \<Rightarrow> bool" where
  "isDigit c = (48 \<le> (of_char c :: nat) \<and> (of_char c :: nat) \<le> 57)"

definition digitVal :: "char \<Rightarrow> nat" where
  "digitVal c = of_char c - 48"

text \<open>The value of a run of decimal digits, most significant first.\<close>

definition parseDigits :: "string \<Rightarrow> nat" where
  "parseDigits s = foldl (\<lambda>n c. 10 * n + digitVal c) 0 s"

section \<open>Server: local time\<close>

text \<open>
  A \<open>Date\<close> or \<open>Dayjs\<close> value is modelled by what dayjs reads from it in the server's
  local time zone: the calendar day, as the number of days since 1970-01-01 (a Thursday),
  and the milliseconds since local midnight. A \<open>'YYYY-MM-DD'\<close> string is modelled by
  the day number it denotes; \<open>format('YYYY-MM-DD')\<close> and \<open>dayjs(string)\<close> are
  inverse to each other on such strings. Daylight-saving shifts are not modelled.
\<close>

record dayjs =
  dayNum :: int
  msOfDay :: int

text \<open>\<open>dayjs(d).day()\<close>: 0 is Sunday, 6 is Saturday.\<close>

definition day :: "dayjs \<Rightarrow> int" where
  "day d = (dayNum d + 4) mod 7"

text \<open>\<open>dayjs(d).hour()\<close>.\<close>

definition hourOf :: "dayjs \<Rightarrow> int" where
  "hourOf d = msOfDay d div 3600000"

text \<open>\<open>dayjs(d).format('YYYY-MM-DD')\<close> and \<open>dayjs('YYYY-MM-DD')\<close>.\<close>

definition format :: "dayjs \<Rightarrow> int" where
  "format d = dayNum d"

definition parseDate :: "int \<Rightarrow> dayjs" where
  "parseDate s = \<lparr>dayNum = s, msOfDay = 0\<rparr>"

definition isBefore :: "dayjs \<Rightarrow> dayjs \<Rightarrow> bool" where
  "isBefore a b = (dayNum a < dayNum b \<or> (dayNum a = dayNum b \<and> msOfDay a < msOfDay b))"

definition isSameDay :: "dayjs \<Rightarrow> dayjs \<Rightarrow> bool" where
  "isSameDay a b = (dayNum a = dayNum b)"

definition addDay :: "dayjs \<Rightarrow> dayjs" where
  "addDay d = d\<lparr>dayNum := dayNum d + 1\<rparr>"

section \<open>Server: the hour classifier and the bucket upsert (services/workHour.ts)\<close>

record userConfig =
  workTimeStart :: "string option"
  workTimeEnd :: "string option"
  lunchStart :: "string option"
  lunchEnd :: "string option"

record workHour =
  rowId :: int
  userId :: int
  date :: int
  hour :: int
  hasActivity :: bool
  codeChanges :: int
  webActivities :: int
  isOvertime :: bool

text \<open>
  The two tables the service reads and writes. \<open>prisma.userConfig.findUnique\<close> is the
  lookup \<open>userConfigs db uid\<close>; the rows of \<open>workHour\<close> are kept in creation order.
  Database calls are taken to succeed.
\<close>

record db =
  userConfigs :: "int \<Rightarrow> userConfig option"
  workHours :: "workHour list"

text \<open>\<open>userConfig?.field || dflt\<close>: a missing config, a null field and the empty string
  all give the default.\<close>

definition orDefault :: "userConfig option \<Rightarrow> (userConfig \<Rightarrow> string option) \<Rightarrow> string \<Rightarrow> string" where
  "orDefault cfg field dflt =
     (case cfg of
        None \<Rightarrow> dflt
      | Some c \<Rightarrow> (case field c of None \<Rightarrow> dflt | Some s \<Rightarrow> if s = [] then dflt else s))"

text \<open>
  \<open>Number(s)\<close> on the strings the classifier meets: the empty string is 0, a run of
  decimal digits is its value, and \<open>None\<close> stands for NaN. Numerals with a sign, a
  fraction, an exponent, a radix prefix or surrounding white space cannot pass the
  \<open>^\d{2}:\d{2}$\<close> validation of the configuration route and are not modelled.
\<close>

definition jsNumber :: "string \<Rightarrow> int option" where
  "jsNumber s = (if list_all isDigit s then Some (int (parseDigits s)) else None)"

text \<open>\<open>const [x] = s.split(':').map(Number)\<close>: the number before the first colon.\<close>

definition firstNumber :: "string \<Rightarrow> int option" where
  "firstNumber s = jsNumber (takeWhile (\<lambda>c. c \<noteq> CHR '':'') s)"

text \<open>Comparisons of a number with a possibly-NaN number; every comparison with NaN is false.\<close>

definition numGe :: "int \<Rightarrow> int option \<Rightarrow> bool" where
  "numGe h x = (case x of None \<Rightarrow> False | Some n \<Rightarrow> h \<ge> n)"

definition numLt :: "int \<Rightarrow> int option \<Rightarrow> bool" where
  "numLt h x = (case x of None \<Rightarrow> False | Some n \<Rightarrow> h < n)"

definition isOvertimeHour :: "db \<Rightarrow> int \<Rightarrow> dayjs \<Rightarrow> int \<Rightarrow> bool" where
  "isOvertimeHour d uid dt h =
     (let cfg = userConfigs d uid;
          workTimeStart' = orDefault cfg workTimeStart ''09:00'';
          workTimeEnd' = orDefault cfg workTimeEnd ''18:00'';
          lunchStart' = orDefault cfg lunchStart ''12:00'';
          lunchEnd' = orDefault cfg lunchEnd ''14:00'';
          dayOfWeek = day dt
      in if dayOfWeek = 0 \<or> dayOfWeek = 6 then True
         else
           let startHour = firstNumber workTimeStart';
               endHour = firstNumber workTimeEnd';
               lunchStartHour = firstNumber lunchStart';
               lunchEndHour = firstNumber lunchEnd'
           in if numGe h lunchStartHour \<and> numLt h lunchEndHour then False
              else if numLt h startHour \<or> numGe h endHour then True
              else False)"

datatype activityType = Code | Web

text \<open>\<open>prisma.workHour.findUnique\<close> on the unique key \<open>(userId, date, hour)\<close>.\<close>

definition findUnique :: "workHour list \<Rightarrow> int \<Rightarrow> int \<Rightarrow> int \<Rightarrow> workHour option" where
  "findUnique rows uid d h = find (\<lambda>r. userId r = uid \<and> date r = d \<and> hour r = h) rows"

text \<open>\<open>prisma.workHour.update({ where: { id }, data })\<close>.\<close>

definition updateById :: "int \<Rightarrow> (workHour \<Rightarrow> workHour) \<Rightarrow> workHour list \<Rightarrow> workHour list" where
  "updateById i f rows = map (\<lambda>r. if rowId r = i then f r else r) rows"

text \<open>The id the database assigns to a created row: one more than the largest in use.\<close>

definition freshId :: "workHour list \<Rightarrow> int" where
  "freshId rows = 1 + foldr max (map rowId rows) 0"

definition updateWorkHour :: "db \<Rightarrow> int \<Rightarrow> dayjs \<Rightarrow> activityType \<Rightarrow> int \<Rightarrow> db" where
  "updateWorkHour d uid recordedAt ty n =
     (let dt = format recordedAt;
          h = hourOf recordedAt;
          ot = isOvertimeHour d uid recordedAt h
      in case findUnique (workHours d) uid dt h of
           Some existing \<Rightarrow>
             d\<lparr>workHours :=
                 updateById (rowId existing)
                   (\<lambda>r. r\<lparr>hasActivity := True,
                           codeChanges := (if ty = Code then codeChanges existing + n
                                           else codeChanges existing),
                           webActivities := (if ty = Web then webActivities existing + n
                                             else webActivities existing)\<rparr>)
                   (workHours d)\<rparr>
         | None \<Rightarrow>
             d\<lparr>workHours :=
                 workHours d @
                   [\<lparr>rowId = freshId (workHours d), userId = uid, date = dt, hour = h,
                     hasActivity = True,
                     codeChanges = (if ty = Code then n else 0),
                     webActivities = (if ty = Web then n else 0),
                     isOvertime = ot\<rparr>]\<rparr>)"

section \<open>Server: summaries over buckets (services/workTime.ts)\<close>

record workTime =
  totalHours :: int
  normalHours :: int
  overtimeHours :: int

definition calculateWorkTime :: "workHour list \<Rightarrow> workTime" where
  "calculateWorkTime whs =
     (let activeHours = filter hasActivity whs;
          total = int (length activeHours);
          overtime = int (length (filter isOvertime activeHours));
          normal = total - overtime
      in \<lparr>totalHours = total, normalHours = normal, overtimeHours = overtime\<rparr>)"

record overtimeStats =
  totalOvertimeHours :: int
  weekdayOvertimeHours :: int
  weekendOvertimeHours :: int
  dailyOvertime :: "(int \<times> int) list"
  overtimeByHour :: "(int \<times> int) list"

text \<open>The first loop: one zero entry per calendar day from \<open>startDate\<close> while the
  current day is before \<open>endDate\<close> or on its day.\<close>

function initDaily :: "dayjs \<Rightarrow> dayjs \<Rightarrow> (int \<times> int) list \<Rightarrow> (int \<times> int) list" where
  "initDaily current endDate daily =
     (if isBefore current endDate \<or> isSameDay current endDate
      then initDaily (addDay current) endDate (AList.update (format current) 0 daily)
      else daily)"
  by pat_completeness auto
termination
  by (relation "measure (\<lambda>(c, e, _). nat (dayNum e + 1 - dayNum c))")
     (auto simp: isBefore_def isSameDay_def addDay_def)

declare initDaily.simps [simp del]

text \<open>The second loop: \<open>for (let h = 0; h < 24; h++) overtimeByHour[h] = 0\<close>.\<close>

definition initHours :: "(int \<times> int) list" where
  "initHours = fold (\<lambda>h m. AList.update h 0 m) [0..23] []"

text \<open>The locals the third loop updates: \<open>dailyOvertime\<close>, \<open>overtimeByHour\<close>,
  \<open>weekdayOvertimeHours\<close> and \<open>weekendOvertimeHours\<close>.\<close>

type_synonym counters = "(int \<times> int) list \<times> (int \<times> int) list \<times> int \<times> int"

definition countBucket :: "workHour \<Rightarrow> counters \<Rightarrow> counters" where
  "countBucket wh acc =
     (case acc of (daily, byHour, weekday, weekend) \<Rightarrow>
        if \<not> hasActivity wh \<or> \<not> isOvertime wh then acc
        else
          let dayOfWeek = day (parseDate (date wh));
              isWeekend = (dayOfWeek = 0 \<or> dayOfWeek = 6);
              daily' = (case map_of daily (date wh) of
                          None \<Rightarrow> daily
                        | Some n \<Rightarrow> AList.update (date wh) (n + 1) daily);
              byHour' = AList.update (hour wh)
                          ((case map_of byHour (hour wh) of None \<Rightarrow> 0 | Some n \<Rightarrow> n) + 1)
                          byHour
          in if isWeekend then (daily', byHour', weekday, weekend + 1)
             else (daily', byHour', weekday + 1, weekend))"

text \<open>
  \<open>config.get('workTime')\<close> throws when the server configuration has no such entry;
  the value it returns is not used. \<open>cfg\<close> is that entry, if any.
\<close>

definition calculateOvertimeStats ::
    "'c option \<Rightarrow> workHour list \<Rightarrow> dayjs \<Rightarrow> dayjs \<Rightarrow> error + overtimeStats" where
  "calculateOvertimeStats cfg whs startDate endDate =
     (case cfg of
        None \<Rightarrow> Inl ConfigError
      | Some workTimeConfig \<Rightarrow>
          (case fold countBucket whs (initDaily startDate endDate [], initHours, 0, 0) of
             (daily, byHour, weekday, weekend) \<Rightarrow>
               Inr \<lparr>totalOvertimeHours = weekday + weekend,
                    weekdayOvertimeHours = weekday,
                    weekendOvertimeHours = weekend,
                    dailyOvertime = daily,
                    overtimeByHour = byHour\<rparr>))"

section \<open>Agent: strings and the stat-summary pattern (scanner.ts)\<close>

text \<open>
  White space as \<open>String.prototype.trim\<close> and the pattern class \<open>\s\<close> see it, among
  8-bit characters: TAB, LF, VT, FF, CR, space and the no-break space.
\<close>

definition isSpace :: "char \<Rightarrow> bool" where
  "isSpace c = ((9 \<le> (of_char c :: nat) \<and> (of_char c :: nat) \<le> 13)
                \<or> (of_char c :: nat) = 32 \<or> (of_char c :: nat) = 160)"

definition trim :: "string \<Rightarrow> string" where
  "trim s = rev (dropWhile isSpace (rev (dropWhile isSpace s)))"

text \<open>\<open>const lines = s.split('\n'); lines[lines.length - 1]\<close>: what follows the last
  line feed.\<close>

definition lastLine :: "string \<Rightarrow> string" where
  "lastLine s = rev (takeWhile (\<lambda>c. c \<noteq> CHR 0x0A) (rev s))"

text \<open>\<open>s.includes(p)\<close>: \<open>p\<close> occurs in \<open>s\<close> as a contiguous substring.\<close>

fun includesStr :: "string \<Rightarrow> string \<Rightarrow> bool" where
  "includesStr [] p = (p = [])"
| "includesStr (c # cs) p = (take (length p) (c # cs) = p \<or> includesStr cs p)"

text \<open>\<open>gitDir.replace(/[/\\]\.git$/, '')\<close>: a final \<open>/.git\<close> or \<open>\.git\<close> is removed.\<close>

definition stripGitSuffix :: "string \<Rightarrow> string" where
  "stripGitSuffix s =
     (let n = length s
      in if 5 \<le> n \<and> drop (n - 4) s = ''.git''
            \<and> (s ! (n - 5) = CHR ''/'' \<or> s ! (n - 5) = CHR 0x5C)
         then take (n - 5) s else s)"

text \<open>
  The pieces of the pattern
  \<open>/(\d+)\s+files?\s+changed(?:,\s+(\d+)\s+insertions?\(\+\))?(?:,\s+(\d+)\s+deletions?\(-\))?/\<close>,
  each returning what it captured and the rest of the input. Every greedy piece is
  followed by something its own characters cannot begin (digits by white space, white
  space by a letter, the optional \<open>s\<close> by white space or a parenthesis), so the
  backtracking matcher can succeed only with the longest choice, which is the one taken
  here.
\<close>

definition digits1 :: "string \<Rightarrow> (string \<times> string) option" where
  "digits1 s = (if takeWhile isDigit s = [] then None
                else Some (takeWhile isDigit s, dropWhile isDigit s))"

definition spaces1 :: "string \<Rightarrow> string option" where
  "spaces1 s = (if takeWhile isSpace s = [] then None else Some (dropWhile isSpace s))"

definition lit :: "string \<Rightarrow> string \<Rightarrow> string option" where
  "lit p s = (if take (length p) s = p then Some (drop (length p) s) else None)"

definition optChar :: "char \<Rightarrow> string \<Rightarrow> string" where
  "optChar c s = (case s of [] \<Rightarrow> s | x # r \<Rightarrow> if x = c then r else s)"

text \<open>\<open>,\s+(\d+)\s+WORDs?\(SIGN\)\<close>, for \<open>insertion\<close> with \<open>+\<close> and \<open>deletion\<close> with
  \<open>-\<close>.\<close>

definition countPart :: "string \<Rightarrow> string \<Rightarrow> string \<Rightarrow> (string \<times> string) option" where
  "countPart word sign s =
     do {
       r1 \<leftarrow> lit '','' s;
       r2 \<leftarrow> spaces1 r1;
       (n, r3) \<leftarrow> digits1 r2;
       r4 \<leftarrow> spaces1 r3;
       r5 \<leftarrow> lit word r4;
       r6 \<leftarrow> lit sign (optChar CHR ''s'' r5);
       Some (n, r6)
     }"

text \<open>The whole pattern, tried at the start of \<open>s\<close>: the three capture groups, an
  optional group that did not take part being \<open>None\<close> (\<open>undefined\<close>).\<close>

definition matchAt :: "string \<Rightarrow> (string \<times> string option \<times> string option) option" where
  "matchAt s =
     do {
       (files, r1) \<leftarrow> digits1 s;
       r2 \<leftarrow> spaces1 r1;
       r3 \<leftarrow> lit ''file'' r2;
       r4 \<leftarrow> spaces1 (optChar CHR ''s'' r3);
       r5 \<leftarrow> lit ''changed'' r4;
       (case countPart ''insertion'' ''(+)'' r5 of
          None \<Rightarrow>
            Some (files, None, map_option fst (countPart ''deletion'' ''(-)'' r5))
        | Some (ins, r6) \<Rightarrow>
            Some (files, Some ins, map_option fst (countPart ''deletion'' ''(-)'' r6)))
     }"

text \<open>\<open>summaryLine.match(pattern)\<close>: the match at the leftmost position that has one.\<close>

fun matchSummary :: "string \<Rightarrow> (string \<times> string option \<times> string option) option" where
  "matchSummary [] = matchAt []"
| "matchSummary (c # cs) =
     (case matchAt (c # cs) of Some m \<Rightarrow> Some m | None \<Rightarrow> matchSummary cs)"

section \<open>Agent: change records and the persisted scanner state\<close>

text \<open>
  \<open>UncommittedStats\<close>, \<open>RepoChange\<close> and \<open>InternalRepoChange\<close>. JavaScript objects are
  structural: a \<open>RepoChange\<close> has the three counters of an \<open>UncommittedStats\<close> and
  four more fields, and an \<open>InternalRepoChange\<close> has \<open>_repoPath\<close> on top, which is
  how the records extend one another here.
\<close>

record uncommittedStats =
  linesAdded :: int
  linesDeleted :: int
  filesChanged :: int

record repoChange = uncommittedStats +
  repoName :: string
  branch :: string
  isCommitted :: bool
  commitHash :: "string option"

record internalRepoChange = repoChange +
  repoPath :: string

record scannerState =
  lastCommitHashes :: "(string \<times> string) list"
  lastDiffHashes :: "(string \<times> string) list"
  lastUncommittedStats :: "(string \<times> uncommittedStats) list"

text \<open>\<open>parseInt(m) || 0\<close> on a capture group: the group's digits, 0 for a group that
  did not take part. (JavaScript rounds values beyond \<open>2^53\<close>; that is not modelled.)\<close>

definition parseIntOr0 :: "string option \<Rightarrow> int" where
  "parseIntOr0 m = (case m of None \<Rightarrow> 0 | Some ds \<Rightarrow> int (parseDigits ds))"

definition parseGitStats :: "string \<Rightarrow> uncommittedStats" where
  "parseGitStats output =
     (let summaryLine = lastLine (trim output)
      in case matchSummary summaryLine of
           Some (m1, m2, m3) \<Rightarrow>
             \<lparr>linesAdded = parseIntOr0 m2, linesDeleted = parseIntOr0 m3,
              filesChanged = parseIntOr0 (Some m1)\<rparr>
         | None \<Rightarrow> \<lparr>linesAdded = 0, linesDeleted = 0, filesChanged = 0\<rparr>)"

subsection \<open>The state file\<close>

text \<open>
  The values \<open>JSON.parse\<close> produces. The state file is modelled by what reading and
  parsing it gives: it does not exist, \<open>readFileSync\<close> throws, \<open>JSON.parse\<close> throws, or
  it holds a JSON document. \<open>JSON.stringify\<close> followed by \<open>JSON.parse\<close> gives back a
  dictionary of strings and integers unchanged, so a successful write of a state leaves
  the document \<open>toJson state\<close>.
\<close>

datatype json =
  JNull | JBool bool | JNum int | JStr string | JArr "json list" | JObj "(string \<times> json) list"

datatype stateFile = Absent | Unreadable | Malformed | Document json

text \<open>JavaScript truthiness, and \<open>v || {}\<close> for a property that may be missing.\<close>

definition truthy :: "json \<Rightarrow> bool" where
  "truthy j =
     (case j of JNull \<Rightarrow> False | JBool b \<Rightarrow> b | JNum n \<Rightarrow> n \<noteq> 0 | JStr s \<Rightarrow> s \<noteq> []
      | JArr xs \<Rightarrow> True | JObj kvs \<Rightarrow> True)"

definition orEmptyObject :: "json option \<Rightarrow> json" where
  "orEmptyObject v = (case v of None \<Rightarrow> JObj [] | Some j \<Rightarrow> if truthy j then j else JObj [])"

text \<open>\<open>parsed.name\<close> on a value other than \<open>null\<close>: the property of an object,
  \<open>undefined\<close> on a number, a string, a boolean or an array.\<close>

definition getProp :: "json \<Rightarrow> string \<Rightarrow> json option" where
  "getProp j name = (case j of JObj kvs \<Rightarrow> map_of kvs name | _ \<Rightarrow> None)"

definition emptyState :: json where
  "emptyState =
     JObj [(''lastCommitHashes'', JObj []), (''lastDiffHashes'', JObj []),
           (''lastUncommittedStats'', JObj [])]"

text \<open>The body of the \<open>try\<close> in \<open>loadState\<close>: \<open>Inr None\<close> when it falls through without
  returning, \<open>Inl\<close> when it throws (reading a property of \<open>null\<close> is a TypeError).\<close>

definition loadStateTry :: "stateFile \<Rightarrow> error + json option" where
  "loadStateTry f =
     (case f of
        Absent \<Rightarrow> Inr None
      | Unreadable \<Rightarrow> Inl IOError
      | Malformed \<Rightarrow> Inl SyntaxError
      | Document parsed \<Rightarrow>
          (if parsed = JNull then Inl TypeError
           else Inr (Some (JObj
                  [(''lastCommitHashes'', orEmptyObject (getProp parsed ''lastCommitHashes'')),
                   (''lastDiffHashes'', orEmptyObject (getProp parsed ''lastDiffHashes'')),
                   (''lastUncommittedStats'',
                      orEmptyObject (getProp parsed ''lastUncommittedStats''))]))))"

definition loadState :: "stateFile \<Rightarrow> json" where
  "loadState f = (case loadStateTry f of Inr (Some st) \<Rightarrow> st | _ \<Rightarrow> emptyState)"

text \<open>
  The rest of the scanner is typed: it treats the loaded value as a \<open>ScannerState\<close>.
  \<open>asScannerState\<close> reads a JSON value at that type and is \<open>None\<close> for a value that
  does not have it; the scanner's behaviour on such a value is not modelled.
\<close>

primrec decodeEntries :: "(json \<Rightarrow> 'v option) \<Rightarrow> (string \<times> json) list \<Rightarrow> (string \<times> 'v) list option" where
  "decodeEntries dec [] = Some []"
| "decodeEntries dec (kv # kvs) =
     (case dec (snd kv) of
        None \<Rightarrow> None
      | Some v \<Rightarrow> map_option (\<lambda>rest. (fst kv, v) # rest) (decodeEntries dec kvs))"

definition asString :: "json \<Rightarrow> string option" where
  "asString j = (case j of JStr s \<Rightarrow> Some s | _ \<Rightarrow> None)"

definition asNumber :: "json option \<Rightarrow> int option" where
  "asNumber j = (case j of Some (JNum n) \<Rightarrow> Some n | _ \<Rightarrow> None)"

definition asStats :: "json \<Rightarrow> uncommittedStats option" where
  "asStats j =
     do {
       a \<leftarrow> asNumber (getProp j ''linesAdded'');
       d \<leftarrow> asNumber (getProp j ''linesDeleted'');
       f \<leftarrow> asNumber (getProp j ''filesChanged'');
       Some \<lparr>linesAdded = a, linesDeleted = d, filesChanged = f\<rparr>
     }"

definition asDict :: "(json \<Rightarrow> 'v option) \<Rightarrow> json option \<Rightarrow> (string \<times> 'v) list option" where
  "asDict dec j = (case j of Some (JObj kvs) \<Rightarrow> decodeEntries dec kvs | _ \<Rightarrow> None)"

definition asScannerState :: "json \<Rightarrow> scannerState option" where
  "asScannerState j =
     do {
       c \<leftarrow> asDict asString (getProp j ''lastCommitHashes'');
       d \<leftarrow> asDict asString (getProp j ''lastDiffHashes'');
       u \<leftarrow> asDict asStats (getProp j ''lastUncommittedStats'');
       Some \<lparr>lastCommitHashes = c, lastDiffHashes = d, lastUncommittedStats = u\<rparr>
     }"

definition statsJson :: "uncommittedStats \<Rightarrow> json" where
  "statsJson s =
     JObj [(''linesAdded'', JNum (linesAdded s)), (''linesDeleted'', JNum (linesDeleted s)),
           (''filesChanged'', JNum (filesChanged s))]"

definition toJson :: "scannerState \<Rightarrow> json" where
  "toJson state =
     JObj [(''lastCommitHashes'', JObj (map (\<lambda>kv. (fst kv, JStr (snd kv))) (lastCommitHashes state))),
           (''lastDiffHashes'', JObj (map (\<lambda>kv. (fst kv, JStr (snd kv))) (lastDiffHashes state))),
           (''lastUncommittedStats'',
              JObj (map (\<lambda>kv. (fst kv, statsJson (snd kv))) (lastUncommittedStats state)))]"

section \<open>Agent: git and the file system as the scanner sees them\<close>

text \<open>
  One repository as \<open>simple-git\<close> answers about it during a scan pass. Each field is the
  outcome of one call of the scanner, \<open>Inl\<close> when the call rejects:
  \<open>revparse(['--abbrev-ref', 'HEAD'])\<close>, \<open>diff(['HEAD', '--stat'])\<close>,
  \<open>diffSummary(['HEAD'])\<close>, \<open>show([h, '--format=%H', '--quiet'])\<close>,
  \<open>log(options).all\<close> (newest commit first) and \<open>show([h, '--stat', '--format='])\<close>.
  A repository does not change while a pass looks at it.
\<close>

record commit =
  hash :: string
  commitTime :: int

record diffResult =
  insertions :: int
  deletions :: int
  files :: "string list"

text \<open>The two shapes of \<open>logOptions\<close>: \<open>{ from: h }\<close> and \<open>{ '--since': t }\<close>, the time in
  milliseconds.\<close>

datatype logOptions = From string | Since int

record git =
  revparse :: "error + string"
  diffStat :: "error + string"
  diffSummary :: "error + diffResult"
  showCommit :: "string \<Rightarrow> error + string"
  log :: "logOptions \<Rightarrow> error + commit list"
  showStat :: "string \<Rightarrow> error + string"

text \<open>
  What a scan pass reads from outside: the agent configuration (\<open>getConfig()\<close>), the
  file system (\<open>existsSync\<close>, \<open>statSync(p).isDirectory()\<close>, \<open>glob\<close>), the repositories
  (\<open>simpleGit(path)\<close>), the clock (\<open>Date.now()\<close>, one instant per pass), the state file,
  and the library functions \<open>path.join\<close>, \<open>path.basename\<close> and the truncated MD5 of
  \<open>hashString\<close>. \<open>writeResult\<close> is \<open>None\<close> when writing the state file succeeds and
  \<open>Some f\<close> when it throws and leaves \<open>f\<close> behind.
\<close>

record world =
  watchPaths :: "string list"
  excludePatterns :: "string list"
  existsSync :: "string \<Rightarrow> bool"
  isDirectory :: "string \<Rightarrow> error + bool"
  glob :: "string \<Rightarrow> error + string list"
  simpleGit :: "string \<Rightarrow> error + git"
  now :: int
  pathJoin :: "string list \<Rightarrow> string"
  basename :: "string \<Rightarrow> string"
  hashString :: "string \<Rightarrow> string"
  stateFile :: stateFile
  writeResult :: "stateFile option"

definition saveState :: "world \<Rightarrow> scannerState \<Rightarrow> stateFile" where
  "saveState w state = (case writeResult w of None \<Rightarrow> Document (toJson state) | Some f \<Rightarrow> f)"

definition findGitRepos :: "world \<Rightarrow> string \<Rightarrow> error + string list" where
  "findGitRepos w basePath =
     (let repos = (if existsSync w (pathJoin w [basePath, ''.git'']) then [basePath] else [])
      in case glob w (pathJoin w [basePath, ''*'', ''.git'']) of
           Inl e \<Rightarrow> Inl e
         | Inr gitDirs \<Rightarrow>
             Inr (fold (\<lambda>gitDir rs.
                          let p = stripGitSuffix gitDir
                          in if p \<in> set rs then rs else rs @ [p])
                    gitDirs repos))"

section \<open>Agent: the scanner\<close>

definition getUncommittedChanges ::
    "world \<Rightarrow> git \<Rightarrow> string \<Rightarrow> scannerState \<Rightarrow> internalRepoChange option \<times> scannerState" where
  "getUncommittedChanges w g p state =
     (case revparse g of
        Inl e \<Rightarrow> (None, state)
      | Inr branchName \<Rightarrow>
          (case diffStat g of
             Inl e \<Rightarrow> (None, state)
           | Inr diffOutput \<Rightarrow>
               let lastStats = (case map_of (lastUncommittedStats state) p of
                                  Some s \<Rightarrow> s
                                | None \<Rightarrow> \<lparr>linesAdded = 0, linesDeleted = 0, filesChanged = 0\<rparr>)
               in if trim diffOutput = []
                  then (None, state\<lparr>lastDiffHashes := AList.delete p (lastDiffHashes state),
                                     lastUncommittedStats :=
                                       AList.delete p (lastUncommittedStats state)\<rparr>)
                  else
                    let currentDiffHash = hashString w diffOutput;
                        lastDiffHash = map_of (lastDiffHashes state) p
                    in if lastDiffHash = Some currentDiffHash then (None, state)
                       else
                         (case diffSummary g of
                            Inl e \<Rightarrow> (None, state)
                          | Inr summary \<Rightarrow>
                              let currentStats =
                                    \<lparr>linesAdded = insertions summary,
                                     linesDeleted = deletions summary,
                                     filesChanged = int (length (files summary))\<rparr>;
                                  deltaAdded =
                                    max 0 (linesAdded currentStats - linesAdded lastStats);
                                  deltaDeleted =
                                    max 0 (linesDeleted currentStats - linesDeleted lastStats);
                                  deltaFiles =
                                    max 0 (filesChanged currentStats - filesChanged lastStats);
                                  state' =
                                    state\<lparr>lastDiffHashes :=
                                            AList.update p currentDiffHash (lastDiffHashes state),
                                          lastUncommittedStats :=
                                            AList.update p currentStats
                                              (lastUncommittedStats state)\<rparr>
                              in if deltaAdded = 0 \<and> deltaDeleted = 0 then (None, state')
                                 else
                                   (Some \<lparr>linesAdded = deltaAdded, linesDeleted = deltaDeleted,
                                          filesChanged = deltaFiles,
                                          repoName = basename w p, branch = trim branchName,
                                          isCommitted = False, commitHash = None,
                                          repoPath = p\<rparr>,
                                    state'))))"

text \<open>One iteration of the loop over the new commits.\<close>

definition processCommit ::
    "world \<Rightarrow> git \<Rightarrow> string \<Rightarrow> string \<Rightarrow> commit
      \<Rightarrow> internalRepoChange list \<times> scannerState \<Rightarrow> internalRepoChange list \<times> scannerState" where
  "processCommit w g p branchName c acc =
     (case acc of (changes, state) \<Rightarrow>
        (case showStat g (hash c) of
           Inl e \<Rightarrow> (changes, state)
         | Inr out \<Rightarrow>
             let stats = parseGitStats out;
                 changes' =
                   (if filesChanged stats > 0
                    then changes @
                           [\<lparr>linesAdded = linesAdded stats, linesDeleted = linesDeleted stats,
                             filesChanged = filesChanged stats,
                             repoName = basename w p, branch = trim branchName,
                             isCommitted = True, commitHash = Some (hash c),
                             repoPath = p\<rparr>]
                    else changes)
             in (changes',
                 state\<lparr>lastCommitHashes := AList.update p (hash c) (lastCommitHashes state)\<rparr>)))"

definition getNewCommits ::
    "world \<Rightarrow> git \<Rightarrow> string \<Rightarrow> scannerState \<Rightarrow> internalRepoChange list \<times> scannerState" where
  "getNewCommits w g p state =
     (case revparse g of
        Inl e \<Rightarrow> ([], state)
      | Inr branchName \<Rightarrow>
          let lastHash = map_of (lastCommitHashes state) p;
              logOpts =
                (case lastHash of
                   None \<Rightarrow> Since (now w - 60 * 60 * 1000)
                 | Some h \<Rightarrow>
                     if h = [] then Since (now w - 60 * 60 * 1000)
                     else (case showCommit g h of
                             Inr found \<Rightarrow> From h
                           | Inl e \<Rightarrow> Since (now w - 24 * 60 * 60 * 1000)))
          in (case log g logOpts of
                Inl e \<Rightarrow> ([], state)
              | Inr allCommits \<Rightarrow>
                  fold (processCommit w g p branchName) (rev allCommits) ([], state)))"

text \<open>The body of the loop over the repositories of one watch path.\<close>

definition scanRepo ::
    "world \<Rightarrow> string \<Rightarrow> internalRepoChange list \<times> scannerState
      \<Rightarrow> internalRepoChange list \<times> scannerState" where
  "scanRepo w p acc =
     (case acc of (allChanges, state) \<Rightarrow>
        if list_ex (\<lambda>pat. includesStr (basename w p) pat \<or> includesStr p pat) (excludePatterns w)
        then acc
        else
          (case simpleGit w p of
             Inl e \<Rightarrow> acc
           | Inr g \<Rightarrow>
               (case getNewCommits w g p state of (commits, state1) \<Rightarrow>
                  (case getUncommittedChanges w g p state1 of
                     (None, state2) \<Rightarrow> (allChanges @ commits, state2)
                   | (Some uncommitted, state2) \<Rightarrow>
                       (allChanges @ commits @ [uncommitted], state2)))))"

text \<open>The loop over the watch paths. \<open>statSync\<close> is called outside every \<open>try\<close>; when it
  throws, so does the scan.\<close>

fun scanWatchPaths ::
    "world \<Rightarrow> string list \<Rightarrow> internalRepoChange list \<times> scannerState
      \<Rightarrow> error + internalRepoChange list \<times> scannerState" where
  "scanWatchPaths w [] acc = Inr acc"
| "scanWatchPaths w (watchPath # rest) acc =
     (if \<not> existsSync w watchPath then scanWatchPaths w rest acc
      else
        (case isDirectory w watchPath of
           Inl e \<Rightarrow> Inl e
         | Inr isDir \<Rightarrow>
             if \<not> isDir then scanWatchPaths w rest acc
             else
               (case findGitRepos w watchPath of
                  Inl e \<Rightarrow> scanWatchPaths w rest acc
                | Inr repos \<Rightarrow> scanWatchPaths w rest (fold (scanRepo w) repos acc))))"

text \<open>\<open>({ _repoPath, ...change }) => change\<close>.\<close>

definition withoutRepoPath :: "internalRepoChange \<Rightarrow> repoChange" where
  "withoutRepoPath c =
     \<lparr>linesAdded = linesAdded c, linesDeleted = linesDeleted c, filesChanged = filesChanged c,
      repoName = repoName c, branch = branch c, isCommitted = isCommitted c,
      commitHash = commitHash c\<rparr>"

text \<open>
  A scan pass: the records it returns and the state file it leaves. The result is
  \<open>None\<close> when the loaded state is not a \<open>ScannerState\<close> (outside the typed model), and
  \<open>Some (Inl e)\<close> when the pass throws.
\<close>

definition scanRepositories :: "world \<Rightarrow> (error + repoChange list \<times> stateFile) option" where
  "scanRepositories w =
     (case asScannerState (loadState (stateFile w)) of
        None \<Rightarrow> None
      | Some state \<Rightarrow>
          Some (case scanWatchPaths w (watchPaths w) ([], state) of
                  Inl e \<Rightarrow> Inl e
                | Inr (allChanges, state') \<Rightarrow>
                    Inr (map withoutRepoPath allChanges, saveState w state')))"

section \<open>Vocabulary of the statements about the server\<close>

text \<open>A configured boundary as the configuration route validates it: two digits, a
  colon, two digits.\<close>

definition isHHMM :: "string \<Rightarrow> bool" where
  "isHHMM s = (length s = 5 \<and> isDigit (s ! 0) \<and> isDigit (s ! 1) \<and> s ! 2 = CHR '':''
                \<and> isDigit (s ! 3) \<and> isDigit (s ! 4))"

text \<open>The hour component of an \<open>HH:MM\<close> boundary; the minutes play no part.\<close>

definition hourComponent :: "string \<Rightarrow> int" where
  "hourComponent s = int (10 * digitVal (s ! 0) + digitVal (s ! 1))"

definition fieldOK :: "string option \<Rightarrow> bool" where
  "fieldOK f = (case f of None \<Rightarrow> True | Some s \<Rightarrow> s = [] \<or> isHHMM s)"

text \<open>A user has no configuration, or one whose boundaries are absent, empty or
  \<open>HH:MM\<close>.\<close>

definition configOK :: "userConfig option \<Rightarrow> bool" where
  "configOK cfg =
     (case cfg of
        None \<Rightarrow> True
      | Some c \<Rightarrow> fieldOK (workTimeStart c) \<and> fieldOK (workTimeEnd c)
                  \<and> fieldOK (lunchStart c) \<and> fieldOK (lunchEnd c))"

text \<open>Two rows that differ at most in \<open>hasActivity\<close>, \<open>codeChanges\<close> and
  \<open>webActivities\<close>.\<close>

definition sameButCounters :: "workHour \<Rightarrow> workHour \<Rightarrow> bool" where
  "sameButCounters r r' =
     (r' = r\<lparr>hasActivity := hasActivity r', codeChanges := codeChanges r',
             webActivities := webActivities r'\<rparr>)"

text \<open>The buckets the overtime statistics count, whether a bucket's date is a Saturday
  or Sunday, and whether a date lies in the initialised range. \<open>stepDaily\<close> and
  \<open>stepHour\<close> are what one iteration of the counting loop does to each dictionary.\<close>

definition qualifying :: "workHour list \<Rightarrow> workHour list" where
  "qualifying whs = filter (\<lambda>w. hasActivity w \<and> isOvertime w) whs"

definition onWeekend :: "workHour \<Rightarrow> bool" where
  "onWeekend w = (day (parseDate (date w)) = 0 \<or> day (parseDate (date w)) = 6)"

definition stepDaily :: "workHour \<Rightarrow> (int \<times> int) list \<Rightarrow> (int \<times> int) list" where
  "stepDaily w dl =
     (if hasActivity w \<and> isOvertime w
      then (case map_of dl (date w) of None \<Rightarrow> dl | Some n \<Rightarrow> AList.update (date w) (n + 1) dl)
      else dl)"

definition stepHour :: "workHour \<Rightarrow> (int \<times> int) list \<Rightarrow> (int \<times> int) list" where
  "stepHour w bh =
     (if hasActivity w \<and> isOvertime w
      then AList.update (hour w) ((case map_of bh (hour w) of None \<Rightarrow> 0 | Some n \<Rightarrow> n) + 1) bh
      else bh)"

definition inRange :: "dayjs \<Rightarrow> dayjs \<Rightarrow> int \<Rightarrow> bool" where
  "inRange s e d = (dayNum s \<le> d \<and> d \<le> dayNum e)"

section \<open>Vocabulary of the statements about the scanner\<close>

text \<open>The snapshot stored for a repository, all zeros when none is stored, and the
  non-negative difference of a current and a previous count.\<close>

definition previousStats :: "scannerState \<Rightarrow> string \<Rightarrow> uncommittedStats" where
  "previousStats state p =
     (case map_of (lastUncommittedStats state) p of
        Some s \<Rightarrow> s
      | None \<Rightarrow> \<lparr>linesAdded = 0, linesDeleted = 0, filesChanged = 0\<rparr>)"

definition nonNegDelta :: "int \<Rightarrow> int \<Rightarrow> int" where
  "nonNegDelta current previous = max 0 (current - previous)"

text \<open>
  What the stat query of a commit gives (\<open>None\<close> when it fails), whether the commit is
  reported (the query succeeds with at least one changed file), the record of a
  reported commit, the newest commit of a newest-first list whose query succeeds, and
  the state with the cursor of a repository moved to a commit.
\<close>

definition statOf :: "git \<Rightarrow> commit \<Rightarrow> uncommittedStats option" where
  "statOf g c = (case showStat g (hash c) of Inl e \<Rightarrow> None | Inr out \<Rightarrow> Some (parseGitStats out))"

definition reportable :: "git \<Rightarrow> commit \<Rightarrow> bool" where
  "reportable g c = (case statOf g c of None \<Rightarrow> False | Some s \<Rightarrow> filesChanged s > 0)"

definition commitRecord :: "world \<Rightarrow> git \<Rightarrow> string \<Rightarrow> string \<Rightarrow> commit \<Rightarrow> internalRepoChange" where
  "commitRecord w g p b c =
     (let s = (case statOf g c of
                 Some s \<Rightarrow> s
               | None \<Rightarrow> \<lparr>linesAdded = 0, linesDeleted = 0, filesChanged = 0\<rparr>)
      in \<lparr>linesAdded = linesAdded s, linesDeleted = linesDeleted s, filesChanged = filesChanged s,
          repoName = basename w p, branch = trim b, isCommitted = True,
          commitHash = Some (hash c), repoPath = p\<rparr>)"

definition newestShown :: "git \<Rightarrow> commit list \<Rightarrow> commit option" where
  "newestShown g cs = find (\<lambda>c. statOf g c \<noteq> None) cs"

definition advanceTo :: "string \<Rightarrow> commit option \<Rightarrow> scannerState \<Rightarrow> scannerState" where
  "advanceTo p c state =
     (case c of
        None \<Rightarrow> state
      | Some c' \<Rightarrow> state\<lparr>lastCommitHashes := AList.update p (hash c') (lastCommitHashes state)\<rparr>)"

text \<open>The three fields of the persisted state, and a loaded state all of whose three
  fields are dictionaries.\<close>

definition stateFields :: "string list" where
  "stateFields = [''lastCommitHashes'', ''lastDiffHashes'', ''lastUncommittedStats'']"

definition isObject :: "json \<Rightarrow> bool" where
  "isObject j = (case j of JObj kvs \<Rightarrow> True | _ \<Rightarrow> False)"

definition hasThreeMaps :: "json \<Rightarrow> bool" where
  "hasThreeMaps j =
     list_all (\<lambda>k. case getProp j k of None \<Rightarrow> False | Some v \<Rightarrow> isObject v) stateFields"

text \<open>What \<open>v || {}\<close> leaves of a field of the parsed file.\<close>

definition fieldOrEmpty :: "json \<Rightarrow> string \<Rightarrow> json" where
  "fieldOrEmpty parsed k =
     (case getProp parsed k of None \<Rightarrow> JObj [] | Some v \<Rightarrow> if truthy v then v else JObj [])"

text \<open>A field of the parsed file that, when present and truthy, is a dictionary.\<close>

definition fieldIsMapIfKept :: "json \<Rightarrow> string \<Rightarrow> bool" where
  "fieldIsMapIfKept parsed k =
     (case getProp parsed k of None \<Rightarrow> True | Some v \<Rightarrow> \<not> truthy v \<or> isObject v)"

text \<open>The repositories found under the watch paths, and a change whose name is the
  basename of its repository, one of the set \<open>S\<close>.\<close>

definition foundRepos :: "world \<Rightarrow> string list" where
  "foundRepos w =
     concat (map (\<lambda>watchPath. case findGitRepos w watchPath of Inl e \<Rightarrow> [] | Inr repos \<Rightarrow> repos)
               (watchPaths w))"

definition namedByBasename :: "world \<Rightarrow> string set \<Rightarrow> internalRepoChange \<Rightarrow> bool" where
  "namedByBasename w S c = (repoName c = basename w (repoPath c) \<and> repoPath c \<in> S)"


section \<open>Vocabulary of the statement about two consecutive passes\<close>









section \<open>An example repository\<close>

text \<open>
  A repository \<open>/home/u/proj\<close> with the commits a1, b2, c3 (oldest first) on \<open>main\<close> and
  an uncommitted diff of one file, +15/-2. The fingerprint function of the example keeps
  the first 16 characters of the text; the model is independent of which function
  \<open>hashString\<close> is.
\<close>

definition exHistory :: "commit list" where
  "exHistory = [\<lparr>hash = ''c3'', commitTime = 3000\<rparr>, \<lparr>hash = ''b2'', commitTime = 2000\<rparr>,
                \<lparr>hash = ''a1'', commitTime = 1000\<rparr>]"

definition exGit :: git where
  "exGit =
     \<lparr>revparse = Inr ''main\<newline>'',
      diffStat = Inr ('' a.ts | 17 +++++++++++++++--\<newline> 1 file changed, 15 insertions(+), 2 deletions(-)\<newline>''),
      diffSummary = Inr \<lparr>insertions = 15, deletions = 2, files = [''a.ts'']\<rparr>,
      showCommit = (\<lambda>h. if h \<in> set (map hash exHistory) then Inr h else Inl GitError),
      log = (\<lambda>opts. case opts of
                      From h \<Rightarrow> Inr (takeWhile (\<lambda>c. hash c \<noteq> h) exHistory)
                    | Since t \<Rightarrow> Inr (takeWhile (\<lambda>c. t \<le> commitTime c) exHistory)),
      showStat = (\<lambda>h. if h = ''b2'' then Inr '' 1 file changed, 2 insertions(+)\<newline>''
                      else if h = ''c3''
                        then Inr '' 2 files changed, 3 insertions(+), 1 deletion(-)\<newline>''
                      else Inl GitError)\<rparr>"

text \<open>The same repository with b2 an empty commit: its stat output is empty.\<close>

definition exGitEmptyB :: git where
  "exGitEmptyB =
     exGit\<lparr>showStat := (\<lambda>h. if h = ''b2'' then Inr []
                           else if h = ''c3''
                             then Inr '' 2 files changed, 3 insertions(+), 1 deletion(-)\<newline>''
                           else Inl GitError)\<rparr>"

text \<open>A state in which a1 was seen and +10/-2 in one file was reported for an older
  diff.\<close>

definition exState :: scannerState where
  "exState =
     \<lparr>lastCommitHashes = [(''/home/u/proj'', ''a1'')],
      lastDiffHashes = [(''/home/u/proj'', ''0123456789abcdef'')],
      lastUncommittedStats =
        [(''/home/u/proj'', \<lparr>linesAdded = 10, linesDeleted = 2, filesChanged = 1\<rparr>)]\<rparr>"

definition exWorld :: world where
  "exWorld =
     \<lparr>watchPaths = [''/home/u''],
      excludePatterns = [''node_modules''],
      existsSync = (\<lambda>p. p = ''/home/u'' \<or> p = ''/home/u/proj/.git''),
      isDirectory = (\<lambda>p. Inr (p = ''/home/u'')),
      glob = (\<lambda>pat. if pat = ''/home/u/*/.git'' then Inr [''/home/u/proj/.git''] else Inr []),
      simpleGit = (\<lambda>p. if p = ''/home/u/proj'' then Inr exGit else Inl GitError),
      now = 5000000,
      pathJoin = (\<lambda>parts. case parts of
                             [] \<Rightarrow> []
                           | x # xs \<Rightarrow> x @ concat (map (\<lambda>y. CHR ''/'' # y) xs)),
      basename = (\<lambda>p. rev (takeWhile (\<lambda>c. c \<noteq> CHR ''/'') (rev p))),
      hashString = take 16,
      stateFile = Document (toJson exState),
      writeResult = None\<rparr>"


text \<open>What the first pass over the example returns and stores, and the world of a second
  pass five minutes later that starts from the stored state.\<close>

definition exRecords :: "repoChange list" where
  "exRecords =
     [\<lparr>linesAdded = 2, linesDeleted = 0, filesChanged = 1, repoName = ''proj'',
       branch = ''main'', isCommitted = True, commitHash = Some ''b2''\<rparr>,
      \<lparr>linesAdded = 3, linesDeleted = 1, filesChanged = 2, repoName = ''proj'',
       branch = ''main'', isCommitted = True, commitHash = Some ''c3''\<rparr>,
      \<lparr>linesAdded = 5, linesDeleted = 0, filesChanged = 0, repoName = ''proj'',
       branch = ''main'', isCommitted = False, commitHash = None\<rparr>]"

definition exStateAfter :: scannerState where
  "exStateAfter =
     \<lparr>lastCommitHashes = [(''/home/u/proj'', ''c3'')],
      lastDiffHashes = [(''/home/u/proj'', '' a.ts | 17 +++++'')],
      lastUncommittedStats =
        [(''/home/u/proj'', \<lparr>linesAdded = 15, linesDeleted = 2, filesChanged = 1\<rparr>)]\<rparr>"



section \<open>The hour classifier\<close>

lemma isDigit_not_colon: "isDigit c \<Longrightarrow> c \<noteq> CHR '':''"
  by (auto simp: isDigit_def)

lemma firstNumber_HHMM: "isHHMM s \<Longrightarrow> firstNumber s = Some (hourComponent s)"
proof -
  assume h: "isHHMM s"
  then obtain a b c e where s: "s = [a, b, CHR '':'', c, e]" and da: "isDigit a" and db: "isDigit b"
    unfolding isHHMM_def
    by (cases s; simp; rename_tac c1 s1; case_tac s1; simp; rename_tac c2 s2; case_tac s2; simp;
        rename_tac c3 s3; case_tac s3; simp; rename_tac c4 s4; case_tac s4; simp)
  show ?thesis
    using da db isDigit_not_colon[OF da] isDigit_not_colon[OF db]
    by (simp add: s firstNumber_def jsNumber_def parseDigits_def hourComponent_def)
qed

lemma isHHMM_default: "isHHMM ''09:00''" "isHHMM ''18:00''" "isHHMM ''12:00''" "isHHMM ''14:00''"
  by (simp_all add: isHHMM_def isDigit_def)

lemma orDefault_HHMM:
  assumes "configOK cfg" "isHHMM dflt"
    "field = workTimeStart \<or> field = workTimeEnd \<or> field = lunchStart \<or> field = lunchEnd"
  shows "isHHMM (orDefault cfg field dflt)"
  using assms by (auto simp: configOK_def fieldOK_def orDefault_def split: option.splits)

lemma hourComponent_default:
  "hourComponent ''09:00'' = 9" "hourComponent ''18:00'' = 18"
  "hourComponent ''12:00'' = 12" "hourComponent ''14:00'' = 14"
  by (simp_all add: hourComponent_def digitVal_def)

text \<open>
  C5. For every user whose configured boundaries are \<open>HH:MM\<close> strings (or absent) and
  every hour, \<open>isOvertimeHour\<close> is decided in this order: true on a Saturday or
  Sunday; else false when the hour lies in the half-open lunch window; else true when
  the hour is before the work start or not before the work end; else false. Only the
  hour component of each boundary is used, and a user without configuration is
  classified with work 09:00-18:00 and lunch 12:00-14:00.
\<close>

theorem isOvertimeHour_decision:
  assumes "configOK (userConfigs d uid)"
  shows "isOvertimeHour d uid dt h =
     (if day dt = 0 \<or> day dt = 6 then True
      else if hourComponent (orDefault (userConfigs d uid) lunchStart ''12:00'') \<le> h
              \<and> h < hourComponent (orDefault (userConfigs d uid) lunchEnd ''14:00'') then False
      else if h < hourComponent (orDefault (userConfigs d uid) workTimeStart ''09:00'')
              \<or> h \<ge> hourComponent (orDefault (userConfigs d uid) workTimeEnd ''18:00'') then True
      else False)
   \<and> isOvertimeHour (d\<lparr>userConfigs := (userConfigs d)(uid := None)\<rparr>) uid dt h =
     (if day dt = 0 \<or> day dt = 6 then True
      else if 12 \<le> h \<and> h < 14 then False
      else if h < 9 \<or> h \<ge> 18 then True
      else False)"
proof -
  let ?c = "userConfigs d uid"
  have a: "firstNumber (orDefault ?c workTimeStart ''09:00'')
             = Some (hourComponent (orDefault ?c workTimeStart ''09:00''))"
    by (rule firstNumber_HHMM) (rule orDefault_HHMM[OF assms], simp_all add: isHHMM_default)
  have b: "firstNumber (orDefault ?c workTimeEnd ''18:00'')
             = Some (hourComponent (orDefault ?c workTimeEnd ''18:00''))"
    by (rule firstNumber_HHMM) (rule orDefault_HHMM[OF assms], simp_all add: isHHMM_default)
  have c: "firstNumber (orDefault ?c lunchStart ''12:00'')
             = Some (hourComponent (orDefault ?c lunchStart ''12:00''))"
    by (rule firstNumber_HHMM) (rule orDefault_HHMM[OF assms], simp_all add: isHHMM_default)
  have e: "firstNumber (orDefault ?c lunchEnd ''14:00'')
             = Some (hourComponent (orDefault ?c lunchEnd ''14:00''))"
    by (rule firstNumber_HHMM) (rule orDefault_HHMM[OF assms], simp_all add: isHHMM_default)
  have 1: "isOvertimeHour d uid dt h =
     (if day dt = 0 \<or> day dt = 6 then True
      else if hourComponent (orDefault ?c lunchStart ''12:00'') \<le> h
              \<and> h < hourComponent (orDefault ?c lunchEnd ''14:00'') then False
      else if h < hourComponent (orDefault ?c workTimeStart ''09:00'')
              \<or> h \<ge> hourComponent (orDefault ?c workTimeEnd ''18:00'') then True
      else False)"
    by (simp add: isOvertimeHour_def Let_def a b c e numGe_def numLt_def)
  have 2: "isOvertimeHour (d\<lparr>userConfigs := (userConfigs d)(uid := None)\<rparr>) uid dt h =
     (if day dt = 0 \<or> day dt = 6 then True
      else if 12 \<le> h \<and> h < 14 then False
      else if h < 9 \<or> h \<ge> 18 then True
      else False)"
    by (simp add: isOvertimeHour_def Let_def orDefault_def firstNumber_HHMM isHHMM_default
          hourComponent_default numGe_def numLt_def)
  from 1 2 show ?thesis by (rule conjI)
qed

text \<open>A Monday (2024-01-01 is day 19723) and a user whose day runs 08:30-17:45 with the
  default lunch: 17 o'clock is already overtime, since only the hour of 17:45 counts.\<close>

theorem isOvertimeHour_decision_witness:
  "configOK (Some \<lparr>workTimeStart = Some ''08:30'', workTimeEnd = Some ''17:45'',
                   lunchStart = None, lunchEnd = Some []\<rparr>)
   \<and> isOvertimeHour
        \<lparr>userConfigs = (\<lambda>u. Some \<lparr>workTimeStart = Some ''08:30'', workTimeEnd = Some ''17:45'',
                                    lunchStart = None, lunchEnd = Some []\<rparr>),
         workHours = []\<rparr>
        7 \<lparr>dayNum = 19723, msOfDay = 0\<rparr> 17 = True"
  using isOvertimeHour_decision
    [of "\<lparr>userConfigs = (\<lambda>u. Some \<lparr>workTimeStart = Some ''08:30'', workTimeEnd = Some ''17:45'',
                                      lunchStart = None, lunchEnd = Some []\<rparr>),
          workHours = []\<rparr>" 7 "\<lparr>dayNum = 19723, msOfDay = 0\<rparr>" 17]
  by (simp add: configOK_def fieldOK_def isHHMM_def isDigit_def orDefault_def hourComponent_def
        digitVal_def day_def)

section \<open>The bucket upsert\<close>

lemma sameButCounters_refl: "sameButCounters r r"
  by (simp add: sameButCounters_def)

lemma list_all2_updateById:
  "list_all2 sameButCounters rows
     (updateById i (\<lambda>r. r\<lparr>hasActivity := a, codeChanges := c, webActivities := w\<rparr>) rows)"
  by (induction rows) (auto simp: updateById_def sameButCounters_def)

lemma list_all2_sameButCounters: "list_all2 sameButCounters rows rows"
  by (simp add: list_all2_same sameButCounters_refl)

lemma length_updateById: "length (updateById i f rows) = length rows"
  by (simp add: updateById_def)

text \<open>
  C6. \<open>updateWorkHour\<close> leaves every existing bucket as it was except for
  \<open>hasActivity\<close>, \<open>codeChanges\<close> and \<open>webActivities\<close>; in particular its stored
  \<open>isOvertime\<close> never changes. When the bucket of the report exists, no row is
  added and the stored rows do not depend on the user's configuration at the time of
  the report; when it does not exist, exactly one row is appended, and its flag is what
  the classifier says at that moment.
\<close>

theorem updateWorkHour_isOvertime_frozen:
  "list_all2 (\<lambda>r r'. sameButCounters r r' \<and> isOvertime r' = isOvertime r)
     (workHours d) (take (length (workHours d)) (workHours (updateWorkHour d uid t ty n)))
   \<and> (case findUnique (workHours d) uid (format t) (hourOf t) of
         Some existing \<Rightarrow>
           length (workHours (updateWorkHour d uid t ty n)) = length (workHours d)
           \<and> workHours (updateWorkHour (d\<lparr>userConfigs := cfgs\<rparr>) uid t ty n)
               = workHours (updateWorkHour d uid t ty n)
       | None \<Rightarrow>
           (\<exists>r. workHours (updateWorkHour d uid t ty n) = workHours d @ [r]
                \<and> isOvertime r = isOvertimeHour d uid t (hourOf t)))"
proof -
  have "list_all2 sameButCounters (workHours d)
          (take (length (workHours d)) (workHours (updateWorkHour d uid t ty n)))"
    by (simp add: updateWorkHour_def Let_def list_all2_updateById list_all2_sameButCounters
             length_updateById split: option.splits)
  moreover have "\<And>r r'. sameButCounters r r' \<Longrightarrow> isOvertime r' = isOvertime r"
  proof -
    fix r r' :: workHour
    assume "sameButCounters r r'"
    then have "isOvertime r' = isOvertime (r\<lparr>hasActivity := hasActivity r',
                 codeChanges := codeChanges r', webActivities := webActivities r'\<rparr>)"
      by (simp add: sameButCounters_def)
    then show "isOvertime r' = isOvertime r" by simp
  qed
  ultimately have 1: "list_all2 (\<lambda>r r'. sameButCounters r r' \<and> isOvertime r' = isOvertime r)
     (workHours d) (take (length (workHours d)) (workHours (updateWorkHour d uid t ty n)))"
    by (simp add: list_all2_mono)
  have 2: "(case findUnique (workHours d) uid (format t) (hourOf t) of
         Some existing \<Rightarrow>
           length (workHours (updateWorkHour d uid t ty n)) = length (workHours d)
           \<and> workHours (updateWorkHour (d\<lparr>userConfigs := cfgs\<rparr>) uid t ty n)
               = workHours (updateWorkHour d uid t ty n)
       | None \<Rightarrow>
           (\<exists>r. workHours (updateWorkHour d uid t ty n) = workHours d @ [r]
                \<and> isOvertime r = isOvertimeHour d uid t (hourOf t)))"
    by (auto simp: updateWorkHour_def Let_def updateById_def split: option.splits)
  from 1 2 show ?thesis by blast
qed

text \<open>A bucket created on Monday at 20:10 under the default configuration is overtime.
  After the user moves the end of work to 22:00 the classifier no longer calls 20
  o'clock overtime, yet a second report in the same hour keeps the stored flag.\<close>

theorem updateWorkHour_isOvertime_frozen_witness:
  "isOvertimeHour
     \<lparr>userConfigs = (\<lambda>u. Some \<lparr>workTimeStart = None, workTimeEnd = Some ''22:00'',
                                 lunchStart = None, lunchEnd = None\<rparr>),
      workHours = [\<lparr>rowId = 1, userId = 7, date = 19723, hour = 20, hasActivity = True,
                    codeChanges = 1, webActivities = 0, isOvertime = True\<rparr>]\<rparr>
     7 \<lparr>dayNum = 19723, msOfDay = 72900000\<rparr> 20 = False
   \<and> workHours (updateWorkHour
        \<lparr>userConfigs = (\<lambda>u. Some \<lparr>workTimeStart = None, workTimeEnd = Some ''22:00'',
                                    lunchStart = None, lunchEnd = None\<rparr>),
         workHours = [\<lparr>rowId = 1, userId = 7, date = 19723, hour = 20, hasActivity = True,
                       codeChanges = 1, webActivities = 0, isOvertime = True\<rparr>]\<rparr>
        7 \<lparr>dayNum = 19723, msOfDay = 72900000\<rparr> Web 3)
     = [\<lparr>rowId = 1, userId = 7, date = 19723, hour = 20, hasActivity = True,
         codeChanges = 1, webActivities = 3, isOvertime = True\<rparr>]"
  using updateWorkHour_isOvertime_frozen
    [of "\<lparr>userConfigs = (\<lambda>u. Some \<lparr>workTimeStart = None, workTimeEnd = Some ''22:00'',
                                      lunchStart = None, lunchEnd = None\<rparr>),
          workHours = [\<lparr>rowId = 1, userId = 7, date = 19723, hour = 20, hasActivity = True,
                        codeChanges = 1, webActivities = 0, isOvertime = True\<rparr>]\<rparr>"
        7 "\<lparr>dayNum = 19723, msOfDay = 72900000\<rparr>" Web 3 "\<lambda>u. None"]
  by (simp add: updateWorkHour_def findUnique_def updateById_def format_def hourOf_def
        isOvertimeHour_def orDefault_def firstNumber_def jsNumber_def parseDigits_def
        isDigit_def digitVal_def numGe_def numLt_def day_def Let_def)

section \<open>Work-time totals\<close>

text \<open>
  C2. Under the default configuration, activity on a Monday at 13:30 creates the hour-13
  bucket with \<open>isOvertime = False\<close> and \<open>hasActivity = True\<close>; \<open>calculateWorkTime\<close>
  counts that bucket as one normal hour, although the classifier's own comment says a
  lunch hour is neither overtime nor normal working time.
\<close>

theorem lunch_bucket_counted_as_normal:
  "workHours (updateWorkHour \<lparr>userConfigs = (\<lambda>u. None), workHours = []\<rparr> 7
                \<lparr>dayNum = 19723, msOfDay = 48600000\<rparr> Code 1)
     = [\<lparr>rowId = 1, userId = 7, date = 19723, hour = 13, hasActivity = True,
         codeChanges = 1, webActivities = 0, isOvertime = False\<rparr>]
   \<and> calculateWorkTime
        (workHours (updateWorkHour \<lparr>userConfigs = (\<lambda>u. None), workHours = []\<rparr> 7
                      \<lparr>dayNum = 19723, msOfDay = 48600000\<rparr> Code 1))
     = \<lparr>totalHours = 1, normalHours = 1, overtimeHours = 0\<rparr>
   \<and> calculateWorkTime [] = \<lparr>totalHours = 0, normalHours = 0, overtimeHours = 0\<rparr>"
  by (simp add: updateWorkHour_def findUnique_def freshId_def format_def hourOf_def
        isOvertimeHour_def orDefault_def firstNumber_def jsNumber_def parseDigits_def
        isDigit_def digitVal_def numGe_def numLt_def day_def Let_def calculateWorkTime_def)

section \<open>Overtime statistics\<close>

lemma countBucket_split:
  "countBucket w (dl, bh, wd, we) =
     (stepDaily w dl, stepHour w bh,
      wd + (if hasActivity w \<and> isOvertime w \<and> \<not> onWeekend w then 1 else 0),
      we + (if hasActivity w \<and> isOvertime w \<and> onWeekend w then 1 else 0))"
  by (simp add: countBucket_def stepDaily_def stepHour_def onWeekend_def Let_def)

lemma fold_countBucket:
  "fold countBucket whs (dl, bh, wd, we) =
     (fold stepDaily whs dl, fold stepHour whs bh,
      wd + int (length (filter (\<lambda>w. \<not> onWeekend w) (qualifying whs))),
      we + int (length (filter onWeekend (qualifying whs))))"
proof (induction whs arbitrary: dl bh wd we)
  case Nil
  show ?case by (simp add: qualifying_def)
next
  case (Cons w whs)
  show ?case
    by (simp only: fold_simps countBucket_split Cons.IH) (simp add: qualifying_def)
qed

lemma stepDaily_lookup:
  "map_of (stepDaily w dl) d =
     map_option (\<lambda>n. n + (if hasActivity w \<and> isOvertime w \<and> date w = d then 1 else 0)) (map_of dl d)"
  by (cases "map_of dl d") (auto simp: stepDaily_def update_conv' split: option.splits)

lemma fold_stepDaily_lookup:
  "map_of (fold stepDaily whs dl) d =
     map_option (\<lambda>n. n + int (length (filter (\<lambda>w. date w = d) (qualifying whs)))) (map_of dl d)"
proof (induction whs arbitrary: dl)
  case Nil
  show ?case by (simp add: qualifying_def option.map_ident)
next
  case (Cons w whs)
  show ?case
    by (cases "map_of dl d") (simp_all add: Cons.IH stepDaily_lookup qualifying_def)
qed

lemma sum_update_existing:
  "map_of al k = Some n \<Longrightarrow>
     sum_list (map snd (AList.update k (n + 1) al)) = sum_list (map snd al) + (1::int)"
  by (induction al) (auto split: if_splits)

lemma stepDaily_keys: "map fst (stepDaily w dl) = map fst dl"
  by (auto simp: stepDaily_def update_keys split: option.splits dest: map_of_SomeD intro: rev_image_eqI)

lemma stepDaily_sum:
  "sum_list (map snd (stepDaily w dl)) =
     sum_list (map snd dl)
       + (if hasActivity w \<and> isOvertime w \<and> date w \<in> fst ` set dl then 1 else 0)"
  by (auto simp: stepDaily_def sum_update_existing map_of_eq_None_iff split: option.splits
           dest: map_of_SomeD intro: rev_image_eqI)

lemma fold_stepDaily_sum:
  "sum_list (map snd (fold stepDaily whs dl)) =
     sum_list (map snd dl)
       + int (length (filter (\<lambda>w. date w \<in> fst ` set dl) (qualifying whs)))"
proof (induction whs arbitrary: dl)
  case Nil
  show ?case by (simp add: qualifying_def)
next
  case (Cons w whs)
  have k: "fst ` set (stepDaily w dl) = fst ` set dl"
    using stepDaily_keys[of w dl] by (metis list.set_map)
  show ?case
    by (simp add: Cons.IH stepDaily_sum k qualifying_def)
qed

lemma stepHour_lookup:
  "map_of (stepHour w bh) h =
     (if hasActivity w \<and> isOvertime w \<and> hour w = h
      then Some ((case map_of bh h of None \<Rightarrow> 0 | Some n \<Rightarrow> n) + 1)
      else map_of bh h)"
  by (simp add: stepHour_def update_conv')

lemma fold_stepHour_lookup:
  "map_of (fold stepHour whs bh) h =
     (if h \<in> fst ` set bh \<or> h \<in> hour ` set (qualifying whs)
      then Some ((case map_of bh h of None \<Rightarrow> 0 | Some n \<Rightarrow> n)
                   + int (length (filter (\<lambda>w. hour w = h) (qualifying whs))))
      else None)"
proof (induction whs arbitrary: bh)
  case Nil
  show ?case
    by (cases "map_of bh h") (auto simp: qualifying_def map_of_eq_None_iff dest: map_of_SomeD intro: rev_image_eqI)
next
  case (Cons w whs)
  have d: "h \<in> fst ` set (stepHour w bh) \<longleftrightarrow>
             h \<in> fst ` set bh \<or> (hasActivity w \<and> isOvertime w \<and> hour w = h)"
    by (auto simp: stepHour_def dom_update)
  show ?case
    by (cases "map_of bh h")
       (auto simp: Cons.IH d stepHour_lookup qualifying_def map_of_eq_None_iff)
qed

lemma initDaily_keys:
  "fst ` set (initDaily s e al) = fst ` set al \<union> {d. dayNum s \<le> d \<and> d \<le> dayNum e}"
proof (induction s e al rule: initDaily.induct)
  case (1 current endDate daily)
  show ?case
  proof (cases "isBefore current endDate \<or> isSameDay current endDate")
    case True
    then have le: "dayNum current \<le> dayNum endDate"
      by (auto simp: isBefore_def isSameDay_def)
    have "initDaily current endDate daily =
            initDaily (addDay current) endDate (AList.update (format current) 0 daily)"
      using True by (subst initDaily.simps) simp
    then show ?thesis
      using 1[OF True] le by (auto simp: dom_update addDay_def format_def)
  next
    case False
    then have "dayNum endDate < dayNum current"
      by (auto simp: isBefore_def isSameDay_def)
    moreover have "initDaily current endDate daily = daily"
      using False by (subst initDaily.simps) simp
    ultimately show ?thesis by auto
  qed
qed

lemma update_zero_values:
  "\<forall>v \<in> snd ` set al. v = (0::int) \<Longrightarrow> \<forall>v \<in> snd ` set (AList.update k 0 al). v = 0"
  by (induction al) auto

lemma initDaily_zero:
  "\<forall>v \<in> snd ` set al. v = (0::int) \<Longrightarrow> \<forall>v \<in> snd ` set (initDaily s e al). v = 0"
proof (induction s e al rule: initDaily.induct)
  case (1 current endDate daily)
  show ?case
  proof (cases "isBefore current endDate \<or> isSameDay current endDate")
    case True
    have "initDaily current endDate daily =
            initDaily (addDay current) endDate (AList.update (format current) 0 daily)"
      using True by (subst initDaily.simps) simp
    then show ?thesis
      using 1(1)[OF True update_zero_values[OF 1(2)]] by simp
  next
    case False
    then have "initDaily current endDate daily = daily"
      by (subst initDaily.simps) simp
    then show ?thesis using 1(2) by simp
  qed
qed

lemma sum_zero_values: "\<forall>v \<in> snd ` set al. v = (0::int) \<Longrightarrow> sum_list (map snd al) = 0"
  by (induction al) auto

lemma initDaily_lookup:
  "map_of (initDaily s e []) d = (if dayNum s \<le> d \<and> d \<le> dayNum e then Some 0 else None)"
proof (cases "dayNum s \<le> d \<and> d \<le> dayNum e")
  case True
  then have "d \<in> fst ` set (initDaily s e [])" by (simp add: initDaily_keys)
  then have "map_of (initDaily s e []) d \<noteq> None" by (simp add: map_of_eq_None_iff)
  then obtain v where v: "map_of (initDaily s e []) d = Some v" by blast
  from map_of_SomeD[OF v] have "snd (d, v) \<in> snd ` set (initDaily s e [])" by (rule imageI)
  with initDaily_zero[of "[]" s e] have "v = 0" by auto
  with v True show ?thesis by simp
next
  case False
  then have "d \<notin> fst ` set (initDaily s e [])" by (simp add: initDaily_keys)
  then have "map_of (initDaily s e []) d = None" by (simp add: map_of_eq_None_iff)
  then show ?thesis using False by auto
qed

lemma initHours_eq: "initHours = map (\<lambda>h. (h, 0)) [0..23]"
  by (simp add: initHours_def upto_rec1)
lemma initHours_lookup: "map_of initHours h = (if 0 \<le> h \<and> h < 24 then Some 0 else None)"
proof -
  have "map_of (map (\<lambda>h. (h, 0::int)) [0..23]) h = (if h \<in> set [0..23] then Some 0 else None)"
    by (simp add: map_of_map_restrict restrict_map_def del: set_upto)
  then show ?thesis by (auto simp: initHours_eq)
qed

lemma initHours_keys: "h \<in> fst ` set initHours \<longleftrightarrow> 0 \<le> h \<and> h < 24"
proof -
  have "fst ` set initHours = set [0..23]"
    unfolding initHours_eq by (simp only: set_map image_image fst_conv image_ident)
  then show ?thesis by auto
qed

text \<open>
  C10. Whenever the server configuration has its \<open>workTime\<close> entry,
  \<open>calculateOvertimeStats\<close> returns, and every bucket with \<open>hasActivity\<close> and
  \<open>isOvertime\<close> counts toward the total, the weekday/weekend split and its hour's
  entry wherever its date lies, while a day's entry exists only for the days from
  \<open>startDate\<close> to \<open>endDate\<close> and counts only the buckets of that day. So the total,
  which is the weekday plus the weekend count, is at least the sum of the daily
  entries, and equals it when every counted bucket is dated inside the range.
\<close>

theorem calculateOvertimeStats_totals:
  "\<exists>r. calculateOvertimeStats (Some c) whs s e = Inr r
     \<and> totalOvertimeHours r = int (length (qualifying whs))
     \<and> weekdayOvertimeHours r = int (length (filter (\<lambda>w. \<not> onWeekend w) (qualifying whs)))
     \<and> weekendOvertimeHours r = int (length (filter onWeekend (qualifying whs)))
     \<and> totalOvertimeHours r = weekdayOvertimeHours r + weekendOvertimeHours r
     \<and> (\<forall>h. map_of (overtimeByHour r) h =
              (if (0 \<le> h \<and> h < 24) \<or> h \<in> hour ` set (qualifying whs)
               then Some (int (length (filter (\<lambda>w. hour w = h) (qualifying whs))))
               else None))
     \<and> (\<forall>d. map_of (dailyOvertime r) d =
              (if inRange s e d
               then Some (int (length (filter (\<lambda>w. date w = d) (qualifying whs))))
               else None))
     \<and> sum_list (map snd (dailyOvertime r))
          = int (length (filter (\<lambda>w. inRange s e (date w)) (qualifying whs)))
     \<and> sum_list (map snd (dailyOvertime r)) \<le> totalOvertimeHours r
     \<and> ((\<forall>w \<in> set (qualifying whs). inRange s e (date w))
          \<longrightarrow> sum_list (map snd (dailyOvertime r)) = totalOvertimeHours r)"
proof -
  let ?Q = "qualifying whs"
  let ?r = "\<lparr>totalOvertimeHours =
               int (length (filter (\<lambda>w. \<not> onWeekend w) ?Q)) + int (length (filter onWeekend ?Q)),
             weekdayOvertimeHours = int (length (filter (\<lambda>w. \<not> onWeekend w) ?Q)),
             weekendOvertimeHours = int (length (filter onWeekend ?Q)),
             dailyOvertime = fold stepDaily whs (initDaily s e []),
             overtimeByHour = fold stepHour whs initHours\<rparr>"
  have r: "calculateOvertimeStats (Some c) whs s e = Inr ?r"
    by (simp add: calculateOvertimeStats_def fold_countBucket)
  have tot: "int (length (filter (\<lambda>w. \<not> onWeekend w) ?Q)) + int (length (filter onWeekend ?Q))
               = int (length ?Q)"
    using sum_length_filter_compl[of onWeekend ?Q] by simp
  have byHour: "map_of (fold stepHour whs initHours) h =
              (if (0 \<le> h \<and> h < 24) \<or> h \<in> hour ` set ?Q
               then Some (int (length (filter (\<lambda>w. hour w = h) ?Q)))
               else None)" for h
    by (simp add: fold_stepHour_lookup initHours_keys initHours_lookup)
  have daily: "map_of (fold stepDaily whs (initDaily s e [])) d =
              (if inRange s e d
               then Some (int (length (filter (\<lambda>w. date w = d) ?Q)))
               else None)" for d
    by (simp add: fold_stepDaily_lookup initDaily_lookup inRange_def)
  have keys: "fst ` set (initDaily s e []) = {d. inRange s e d}"
    by (simp add: initDaily_keys inRange_def)
  have sum: "sum_list (map snd (fold stepDaily whs (initDaily s e [])))
          = int (length (filter (\<lambda>w. inRange s e (date w)) ?Q))"
    using initDaily_zero[of "[]" s e]
    by (simp add: fold_stepDaily_sum keys sum_zero_values)
  have le: "int (length (filter (\<lambda>w. inRange s e (date w)) ?Q)) \<le> int (length ?Q)"
    by simp
  have eq: "(\<forall>w \<in> set ?Q. inRange s e (date w)) \<Longrightarrow>
              int (length (filter (\<lambda>w. inRange s e (date w)) ?Q)) = int (length ?Q)"
    by simp
  show ?thesis
  proof (intro exI[of _ ?r] conjI allI impI)
    show "calculateOvertimeStats (Some c) whs s e = Inr ?r" by (rule r)
  qed (simp_all add: tot byHour daily sum)
qed

text \<open>Two overtime buckets on Saturday 2024-01-06 (day 19728), the range being the first
  week of January 2024.\<close>

theorem calculateOvertimeStats_totals_witness:
  "list_all (\<lambda>w. inRange \<lparr>dayNum = 19723, msOfDay = 0\<rparr> \<lparr>dayNum = 19729, msOfDay = 0\<rparr> (date w))
     (qualifying
        [\<lparr>rowId = 1, userId = 7, date = 19728, hour = 10, hasActivity = True,
          codeChanges = 2, webActivities = 0, isOvertime = True\<rparr>,
         \<lparr>rowId = 2, userId = 7, date = 19728, hour = 11, hasActivity = True,
          codeChanges = 0, webActivities = 5, isOvertime = True\<rparr>])
   \<and> (\<exists>r. calculateOvertimeStats (Some ())
             [\<lparr>rowId = 1, userId = 7, date = 19728, hour = 10, hasActivity = True,
               codeChanges = 2, webActivities = 0, isOvertime = True\<rparr>,
              \<lparr>rowId = 2, userId = 7, date = 19728, hour = 11, hasActivity = True,
               codeChanges = 0, webActivities = 5, isOvertime = True\<rparr>]
             \<lparr>dayNum = 19723, msOfDay = 0\<rparr> \<lparr>dayNum = 19729, msOfDay = 0\<rparr> = Inr r
          \<and> totalOvertimeHours r = 2 \<and> weekendOvertimeHours r = 2
          \<and> sum_list (map snd (dailyOvertime r)) = 2)"
  using calculateOvertimeStats_totals
    [of "()"
        "[\<lparr>rowId = 1, userId = 7, date = 19728, hour = 10, hasActivity = True,
           codeChanges = 2, webActivities = 0, isOvertime = True\<rparr>,
          \<lparr>rowId = 2, userId = 7, date = 19728, hour = 11, hasActivity = True,
           codeChanges = 0, webActivities = 5, isOvertime = True\<rparr>]"
        "\<lparr>dayNum = 19723, msOfDay = 0\<rparr>" "\<lparr>dayNum = 19729, msOfDay = 0\<rparr>"]
  by (auto simp: qualifying_def inRange_def onWeekend_def day_def parseDate_def)

section \<open>Uncommitted changes\<close>

text \<open>
  C1. When the branch query, the diff and the diff summary succeed, the diff text is not
  blank and its fingerprint differs from the stored one, \<open>getUncommittedChanges\<close>
  computes linesAdded, linesDeleted and filesChanged as the non-negative differences of
  the current insertions, deletions and file count against the stored snapshot (zeros
  when none is stored), returns a record with \<open>isCommitted = False\<close> carrying them
  exactly when linesAdded or linesDeleted is not zero, and in both cases stores the
  fingerprint and the full current snapshot for the repository.
\<close>

theorem getUncommittedChanges_delta:
  assumes "revparse g = Inr b"
    and "diffStat g = Inr diffOutput"
    and "trim diffOutput \<noteq> []"
    and "map_of (lastDiffHashes state) p \<noteq> Some (hashString w diffOutput)"
    and "diffSummary g = Inr summary"
  shows "fst (getUncommittedChanges w g p state) =
           (if nonNegDelta (insertions summary) (linesAdded (previousStats state p)) = 0
               \<and> nonNegDelta (deletions summary) (linesDeleted (previousStats state p)) = 0
            then None
            else Some \<lparr>linesAdded =
                         nonNegDelta (insertions summary) (linesAdded (previousStats state p)),
                       linesDeleted =
                         nonNegDelta (deletions summary) (linesDeleted (previousStats state p)),
                       filesChanged =
                         nonNegDelta (int (length (files summary)))
                           (filesChanged (previousStats state p)),
                       repoName = basename w p, branch = trim b, isCommitted = False,
                       commitHash = None, repoPath = p\<rparr>)
    \<and> map_of (lastDiffHashes (snd (getUncommittedChanges w g p state))) p
          = Some (hashString w diffOutput)
    \<and> map_of (lastUncommittedStats (snd (getUncommittedChanges w g p state))) p
          = Some \<lparr>linesAdded = insertions summary, linesDeleted = deletions summary,
                   filesChanged = int (length (files summary))\<rparr>
    \<and> lastCommitHashes (snd (getUncommittedChanges w g p state)) = lastCommitHashes state"
  using assms
  by (simp add: getUncommittedChanges_def Let_def previousStats_def nonNegDelta_def update_conv')

text \<open>The diff of the example repository grew from +10/-2 to +15/-2: the record says
  +5/-0 in no additional file.\<close>

theorem getUncommittedChanges_delta_witness:
  "fst (getUncommittedChanges exWorld exGit ''/home/u/proj'' exState)
     = Some \<lparr>linesAdded = 5, linesDeleted = 0, filesChanged = 0, repoName = ''proj'',
              branch = ''main'', isCommitted = False, commitHash = None,
              repoPath = ''/home/u/proj''\<rparr>
   \<and> map_of (lastUncommittedStats
        (snd (getUncommittedChanges exWorld exGit ''/home/u/proj'' exState))) ''/home/u/proj''
     = Some \<lparr>linesAdded = 15, linesDeleted = 2, filesChanged = 1\<rparr>"
proof -
  let ?d = "'' a.ts | 17 +++++++++++++++--\<newline> 1 file changed, 15 insertions(+), 2 deletions(-)\<newline>''"
  have 1: "revparse exGit = Inr ''main\<newline>''" by (simp add: exGit_def)
  have 2: "diffStat exGit = Inr ?d" by (simp add: exGit_def)
  have 3: "trim ?d \<noteq> []" by (simp add: trim_def isSpace_def)
  have 4: "map_of (lastDiffHashes exState) ''/home/u/proj'' \<noteq> Some (hashString exWorld ?d)"
    by (simp add: exState_def exWorld_def)
  have 5: "diffSummary exGit = Inr \<lparr>insertions = 15, deletions = 2, files = [''a.ts'']\<rparr>"
    by (simp add: exGit_def)
  have b: "basename exWorld ''/home/u/proj'' = ''proj''" by (simp add: exWorld_def)
  have t: "trim ''main\<newline>'' = ''main''" by (simp add: trim_def isSpace_def)
  from getUncommittedChanges_delta[OF 1 2 3 4 5]
  show ?thesis by (simp add: previousStats_def nonNegDelta_def exState_def b t)
qed

section \<open>New commits\<close>

lemmas parser_defs =
  parseGitStats_def trim_def lastLine_def isSpace_def matchAt_def digits1_def spaces1_def
  lit_def optChar_def countPart_def isDigit_def parseIntOr0_def parseDigits_def digitVal_def

lemma exStat_b2:
  "parseGitStats '' 1 file changed, 2 insertions(+)\<newline>''
     = \<lparr>linesAdded = 2, linesDeleted = 0, filesChanged = 1\<rparr>"
  by (simp add: parser_defs)

lemma exStat_c3:
  "parseGitStats '' 2 files changed, 3 insertions(+), 1 deletion(-)\<newline>''
     = \<lparr>linesAdded = 3, linesDeleted = 1, filesChanged = 2\<rparr>"
  by (simp add: parser_defs)

lemma exStat_empty:
  "parseGitStats [] = \<lparr>linesAdded = 0, linesDeleted = 0, filesChanged = 0\<rparr>"
  by (simp add: parser_defs)

lemma exGit_calls:
  "revparse exGit = Inr ''main\<newline>''"
  "showCommit exGit ''a1'' = Inr ''a1''"
  "log exGit (From ''a1'')
     = Inr [\<lparr>hash = ''c3'', commitTime = 3000\<rparr>, \<lparr>hash = ''b2'', commitTime = 2000\<rparr>]"
  "showStat exGit ''b2'' = Inr '' 1 file changed, 2 insertions(+)\<newline>''"
  "showStat exGit ''c3'' = Inr '' 2 files changed, 3 insertions(+), 1 deletion(-)\<newline>''"
  by (simp_all add: exGit_def exHistory_def)

lemma exGitEmptyB_calls:
  "revparse exGitEmptyB = Inr ''main\<newline>''"
  "showCommit exGitEmptyB ''a1'' = Inr ''a1''"
  "log exGitEmptyB (From ''a1'')
     = Inr [\<lparr>hash = ''c3'', commitTime = 3000\<rparr>, \<lparr>hash = ''b2'', commitTime = 2000\<rparr>]"
  "showStat exGitEmptyB ''b2'' = Inr []"
  "showStat exGitEmptyB ''c3''
     = Inr '' 2 files changed, 3 insertions(+), 1 deletion(-)\<newline>''"
  by (simp_all add: exGitEmptyB_def exGit_def exHistory_def)

lemma exState_cursor: "map_of (lastCommitHashes exState) ''/home/u/proj'' = Some ''a1''"
  by (simp add: exState_def)

lemma trim_main: "trim ''main\<newline>'' = ''main''"
  by (simp add: trim_def isSpace_def)

lemma parseGitStats_unmatched:
  "matchSummary (lastLine (trim out)) = None \<Longrightarrow>
     parseGitStats out = \<lparr>linesAdded = 0, linesDeleted = 0, filesChanged = 0\<rparr>"
  by (simp add: parseGitStats_def)

lemma processCommit_eq:
  "processCommit w g p b c (chs, st) =
     (chs @ (if reportable g c then [commitRecord w g p b c] else []),
      advanceTo p (if statOf g c = None then None else Some c) st)"
  by (simp add: processCommit_def statOf_def reportable_def commitRecord_def advanceTo_def Let_def
           split: sum.splits)

lemma advanceTo_twice:
  "advanceTo p (Some c) (advanceTo p x st) = advanceTo p (Some c) st"
  by (cases x) (simp_all add: advanceTo_def)

lemma fold_processCommit:
  "fold (processCommit w g p b) xs (chs, st) =
     (chs @ map (commitRecord w g p b) (filter (reportable g) xs),
      advanceTo p (newestShown g (rev xs)) st)"
proof (induction xs arbitrary: chs st rule: rev_induct)
  case Nil
  show ?case by (simp add: newestShown_def advanceTo_def)
next
  case (snoc x xs)
  show ?case
    by (simp add: snoc.IH processCommit_eq newestShown_def advanceTo_twice)
       (simp add: advanceTo_def)
qed

lemma getNewCommits_reportable:
  "\<exists>b cs. fst (getNewCommits w g p st) = map (commitRecord w g p b) cs
           \<and> (\<forall>c \<in> set cs. reportable g c)"
proof (cases "revparse g")
  case (Inl e)
  then show ?thesis by (simp add: getNewCommits_def)
next
  case (Inr b)
  show ?thesis
  proof (cases "log g (case map_of (lastCommitHashes st) p of
                   None \<Rightarrow> Since (now w - 60 * 60 * 1000)
                 | Some h \<Rightarrow>
                     if h = [] then Since (now w - 60 * 60 * 1000)
                     else (case showCommit g h of
                             Inr found \<Rightarrow> From h
                           | Inl e \<Rightarrow> Since (now w - 24 * 60 * 60 * 1000)))")
    case (Inl e)
    then show ?thesis using Inr by (simp add: getNewCommits_def Let_def)
  next
    case r: (Inr cs)
    have "fst (getNewCommits w g p st) = map (commitRecord w g p b) (filter (reportable g) (rev cs))"
      using Inr r by (simp add: getNewCommits_def Let_def fold_processCommit)
    moreover have "\<forall>c \<in> set (filter (reportable g) (rev cs)). reportable g c" by simp
    ultimately show ?thesis by blast
  qed
qed

text \<open>
  C7. For a commit whose stat query succeeds and reports no changed file, be it that the
  summary pattern does not match the output (which reads as all zeros) or that the
  matched file count is zero, the loop iteration adds no record and sets the stored
  last-commit hash of the repository to that commit's hash; and no record that the
  commit phase of a scan returns carries that commit's hash.
\<close>

theorem processCommit_zero_files:
  assumes "showStat g (hash c) = Inr out"
    and "matchSummary (lastLine (trim out)) = None \<or> filesChanged (parseGitStats out) = 0"
  shows "processCommit w g p b c (changes, state) =
           (changes, state\<lparr>lastCommitHashes := AList.update p (hash c) (lastCommitHashes state)\<rparr>)
    \<and> map_of (lastCommitHashes (snd (processCommit w g p b c (changes, state)))) p = Some (hash c)
    \<and> (\<forall>r \<in> set (fst (getNewCommits w g p state)). commitHash r \<noteq> Some (hash c))"
proof -
  from assms(2) have z: "filesChanged (parseGitStats out) = 0"
    by (auto simp: parseGitStats_unmatched)
  then have 1: "processCommit w g p b c (changes, state) =
           (changes, state\<lparr>lastCommitHashes := AList.update p (hash c) (lastCommitHashes state)\<rparr>)"
    using assms(1) by (simp add: processCommit_def Let_def)
  then have 2: "map_of (lastCommitHashes (snd (processCommit w g p b c (changes, state)))) p
                  = Some (hash c)"
    by (simp add: update_conv')
  have n: "\<not> reportable g c'" if "hash c' = hash c" for c'
    using that assms(1) z by (simp add: reportable_def statOf_def)
  from getNewCommits_reportable[of w g p state] obtain b' cs where
    r: "fst (getNewCommits w g p state) = map (commitRecord w g p b') cs"
    and rep: "\<forall>c \<in> set cs. reportable g c" by blast
  have 3: "\<forall>r \<in> set (fst (getNewCommits w g p state)). commitHash r \<noteq> Some (hash c)"
  proof
    fix x assume "x \<in> set (fst (getNewCommits w g p state))"
    then obtain c' where c': "c' \<in> set cs" "x = commitRecord w g p b' c'"
      using r by auto
    then have "commitHash x = Some (hash c')" by (simp add: commitRecord_def Let_def)
    moreover have "hash c' \<noteq> hash c" using n[of c'] rep c'(1) by blast
    ultimately show "commitHash x \<noteq> Some (hash c)" by simp
  qed
  from 1 2 3 show ?thesis by blast
qed

text \<open>The empty commit b2 of the example: no record, and the cursor moves from a1 to b2.\<close>

theorem processCommit_zero_files_witness:
  "matchSummary (lastLine (trim [])) = None
   \<and> processCommit exWorld exGitEmptyB ''/home/u/proj'' ''main''
        \<lparr>hash = ''b2'', commitTime = 2000\<rparr> ([], exState)
     = ([], exState\<lparr>lastCommitHashes := [(''/home/u/proj'', ''b2'')]\<rparr>)"
proof -
  have m: "matchSummary (lastLine (trim [])) = None"
    by (simp add: parser_defs)
  have s: "showStat exGitEmptyB (hash \<lparr>hash = ''b2'', commitTime = 2000\<rparr>) = Inr []"
    by (simp add: exGitEmptyB_calls)
  from processCommit_zero_files[OF s disjI1[OF m],
         of exWorld "''/home/u/proj''" "''main''" "[]" exState]
  show ?thesis using m by (simp add: exState_def)
qed

lemma getNewCommits_known:
  assumes "map_of (lastCommitHashes state) p = Some h" "h \<noteq> []" "showCommit g h = Inr x"
    "revparse g = Inr b" "log g (From h) = Inr cs"
  shows "getNewCommits w g p state =
           (map (commitRecord w g p b) (filter (reportable g) (rev cs)),
            advanceTo p (newestShown g cs) state)"
  using assms by (simp add: getNewCommits_def Let_def fold_processCommit)

text \<open>
  C4, as the code has it. For a repository whose stored last-commit hash still resolves,
  and whose branch query and log succeed, the scan emits records exactly for those
  commits the log lists after that hash whose stat query succeeds and reports at least
  one changed file, oldest first, each with \<open>isCommitted = True\<close> and its commit hash;
  afterwards the stored hash is that of the newest listed commit whose stat query
  succeeded, and is unchanged when there is none.
\<close>

theorem getNewCommits_after_known_hash:
  assumes "map_of (lastCommitHashes state) p = Some h" and "h \<noteq> []"
    and "showCommit g h = Inr x" and "revparse g = Inr b" and "log g (From h) = Inr cs"
  shows "fst (getNewCommits w g p state)
           = map (commitRecord w g p b) (filter (reportable g) (rev cs))
    \<and> map_of (lastCommitHashes (snd (getNewCommits w g p state))) p
           = Some (case newestShown g cs of None \<Rightarrow> h | Some c \<Rightarrow> hash c)"
  using assms(1)
  by (simp add: getNewCommits_known[OF assms] advanceTo_def update_conv' split: option.splits)

text \<open>The example repository scanned after only a1 was seen: records for b2, then c3,
  and the cursor at c3.\<close>

theorem getNewCommits_after_known_hash_witness:
  "map (\<lambda>r. (commitHash r, isCommitted r, linesAdded r, linesDeleted r, filesChanged r))
       (fst (getNewCommits exWorld exGit ''/home/u/proj'' exState))
     = [(Some ''b2'', True, 2, 0, 1), (Some ''c3'', True, 3, 1, 2)]
   \<and> map_of (lastCommitHashes (snd (getNewCommits exWorld exGit ''/home/u/proj'' exState)))
        ''/home/u/proj'' = Some ''c3''"
proof -
  have ne: "''a1'' \<noteq> []" by simp
  from getNewCommits_after_known_hash
         [OF exState_cursor ne exGit_calls(2) exGit_calls(1) exGit_calls(3), of exWorld]
  show ?thesis
    by (simp add: reportable_def statOf_def commitRecord_def newestShown_def exGit_calls
          exStat_b2 exStat_c3)
qed

text \<open>With b2 an empty commit, the commits after a1 are b2 and c3, yet the only record
  is the one of c3.\<close>

theorem getNewCommits_skips_empty_commit:
  "log exGitEmptyB (From ''a1'')
     = Inr [\<lparr>hash = ''c3'', commitTime = 3000\<rparr>, \<lparr>hash = ''b2'', commitTime = 2000\<rparr>]
   \<and> map commitHash (fst (getNewCommits exWorld exGitEmptyB ''/home/u/proj'' exState))
     = [Some ''c3'']"
proof -
  have ne: "''a1'' \<noteq> []" by simp
  have "getNewCommits exWorld exGitEmptyB ''/home/u/proj'' exState =
          (map (commitRecord exWorld exGitEmptyB ''/home/u/proj'' ''main\<newline>'')
             (filter (reportable exGitEmptyB)
                (rev [\<lparr>hash = ''c3'', commitTime = 3000\<rparr>, \<lparr>hash = ''b2'', commitTime = 2000\<rparr>])),
           advanceTo ''/home/u/proj''
             (newestShown exGitEmptyB
                [\<lparr>hash = ''c3'', commitTime = 3000\<rparr>, \<lparr>hash = ''b2'', commitTime = 2000\<rparr>])
             exState)"
    by (rule getNewCommits_known
          [OF exState_cursor ne exGitEmptyB_calls(2) exGitEmptyB_calls(1) exGitEmptyB_calls(3)])
  then show ?thesis
    by (simp add: reportable_def statOf_def commitRecord_def exGitEmptyB_calls
          exStat_empty exStat_c3)
qed

section \<open>Loading the state\<close>

lemma getProp_loaded:
  "parsed \<noteq> JNull \<Longrightarrow> k \<in> set stateFields \<Longrightarrow>
     getProp (loadState (Document parsed)) k = Some (fieldOrEmpty parsed k)"
  by (auto simp: loadState_def loadStateTry_def getProp_def stateFields_def fieldOrEmpty_def
        orEmptyObject_def)

text \<open>
  C8, as the code has it. \<open>loadState\<close> returns for every state file (it has no failing
  outcome), and what it returns always has the three fields. They are three empty
  dictionaries when the file is absent, unreadable or unparseable or holds \<open>null\<close>;
  otherwise each field that is missing or falsy in the file is an empty dictionary and
  every other field is the file's value unchanged. So the three are dictionaries
  whenever each of the three fields that the file holds with a truthy value is one.
\<close>

theorem loadState_fields:
  "loadState Absent = emptyState \<and> loadState Unreadable = emptyState
   \<and> loadState Malformed = emptyState
   \<and> emptyState = JObj [(''lastCommitHashes'', JObj []), (''lastDiffHashes'', JObj []),
                         (''lastUncommittedStats'', JObj [])]
   \<and> loadState (Document parsed) =
       (if parsed = JNull then emptyState
        else JObj [(''lastCommitHashes'', fieldOrEmpty parsed ''lastCommitHashes''),
                   (''lastDiffHashes'', fieldOrEmpty parsed ''lastDiffHashes''),
                   (''lastUncommittedStats'', fieldOrEmpty parsed ''lastUncommittedStats'')])
   \<and> (list_all (fieldIsMapIfKept parsed) stateFields
        \<longrightarrow> hasThreeMaps (loadState (Document parsed)))"
  by (auto simp: loadState_def loadStateTry_def emptyState_def fieldOrEmpty_def orEmptyObject_def
        hasThreeMaps_def stateFields_def fieldIsMapIfKept_def getProp_def isObject_def
        split: option.splits)

text \<open>A file of an older schema that holds only \<open>lastCommitHashes\<close>.\<close>

theorem loadState_fields_witness:
  "list_all (fieldIsMapIfKept (JObj [(''lastCommitHashes'', JObj [(''/home/u/proj'', JStr ''a1'')])]))
     stateFields
   \<and> loadState (Document (JObj [(''lastCommitHashes'', JObj [(''/home/u/proj'', JStr ''a1'')])]))
     = JObj [(''lastCommitHashes'', JObj [(''/home/u/proj'', JStr ''a1'')]),
             (''lastDiffHashes'', JObj []), (''lastUncommittedStats'', JObj [])]
   \<and> hasThreeMaps
        (loadState (Document (JObj [(''lastCommitHashes'', JObj [(''/home/u/proj'', JStr ''a1'')])])))"
  using loadState_fields
    [of "JObj [(''lastCommitHashes'', JObj [(''/home/u/proj'', JStr ''a1'')])]"]
  by (simp add: fieldIsMapIfKept_def stateFields_def getProp_def isObject_def truthy_def
        fieldOrEmpty_def hasThreeMaps_def)

text \<open>A state file that parses to \<open>{"lastCommitHashes": 5}\<close>: the number is returned in
  place of a dictionary.\<close>

theorem loadState_keeps_non_map:
  "loadState (Document (JObj [(''lastCommitHashes'', JNum 5)]))
     = JObj [(''lastCommitHashes'', JNum 5), (''lastDiffHashes'', JObj []),
             (''lastUncommittedStats'', JObj [])]
   \<and> \<not> hasThreeMaps (loadState (Document (JObj [(''lastCommitHashes'', JNum 5)])))"
  by (simp add: loadState_def loadStateTry_def orEmptyObject_def getProp_def truthy_def
        hasThreeMaps_def stateFields_def isObject_def)

section \<open>What a scan returns\<close>

lemma commitRecord_named: "p \<in> S \<Longrightarrow> namedByBasename w S (commitRecord w g p b c)"
  by (simp add: namedByBasename_def commitRecord_def Let_def)

lemma getNewCommits_named:
  "p \<in> S \<Longrightarrow> \<forall>c \<in> set (fst (getNewCommits w g p st)). namedByBasename w S c"
  using getNewCommits_reportable[of w g p st] by (auto simp: commitRecord_named)

lemma getUncommittedChanges_named:
  "p \<in> S \<Longrightarrow> fst (getUncommittedChanges w g p st) = Some c \<Longrightarrow> namedByBasename w S c"
  by (auto simp: getUncommittedChanges_def Let_def namedByBasename_def
           split: sum.splits if_splits)

lemma scanRepo_named:
  assumes "p \<in> S" "\<forall>c \<in> set (fst acc). namedByBasename w S c"
  shows "\<forall>c \<in> set (fst (scanRepo w p acc)). namedByBasename w S c"
proof -
  obtain chs st where acc: "acc = (chs, st)" by (cases acc)
  show ?thesis
  proof (cases "list_ex (\<lambda>pat. includesStr (basename w p) pat \<or> includesStr p pat) (excludePatterns w)")
    case True
    then show ?thesis using assms(2) by (simp add: scanRepo_def acc)
  next
    case False
    show ?thesis
    proof (cases "simpleGit w p")
      case (Inl e)
      then show ?thesis using assms(2) False by (simp add: scanRepo_def acc)
    next
      case (Inr g)
      obtain commits st1 where c: "getNewCommits w g p st = (commits, st1)"
        by (cases "getNewCommits w g p st")
      obtain u st2 where u: "getUncommittedChanges w g p st1 = (u, st2)"
        by (cases "getUncommittedChanges w g p st1")
      have 1: "\<forall>c \<in> set commits. namedByBasename w S c"
        using getNewCommits_named[OF assms(1), of w g st] c by simp
      have 2: "\<And>x. u = Some x \<Longrightarrow> namedByBasename w S x"
        using getUncommittedChanges_named[OF assms(1), of w g st1] u by simp
      show ?thesis
        using assms(2) False Inr c u 1 2
        by (cases u) (auto simp: scanRepo_def acc)
    qed
  qed
qed

lemma fold_scanRepo_named:
  "set repos \<subseteq> S \<Longrightarrow> \<forall>c \<in> set (fst acc). namedByBasename w S c \<Longrightarrow>
     \<forall>c \<in> set (fst (fold (scanRepo w) repos acc)). namedByBasename w S c"
proof (induction repos arbitrary: acc)
  case Nil
  then show ?case by simp
next
  case (Cons p repos)
  from Cons.prems have "\<forall>c \<in> set (fst (scanRepo w p acc)). namedByBasename w S c"
    by (intro scanRepo_named) auto
  with Cons show ?case by simp
qed

lemma scanWatchPaths_named:
  "scanWatchPaths w wps acc = Inr acc' \<Longrightarrow>
   (\<forall>wp \<in> set wps. \<forall>repos. findGitRepos w wp = Inr repos \<longrightarrow> set repos \<subseteq> S) \<Longrightarrow>
   \<forall>c \<in> set (fst acc). namedByBasename w S c \<Longrightarrow>
   \<forall>c \<in> set (fst acc'). namedByBasename w S c"
proof (induction wps arbitrary: acc)
  case Nil
  then show ?case by simp
next
  case (Cons wp wps)
  show ?case
  proof (cases "existsSync w wp")
    case False
    then show ?thesis using Cons by simp
  next
    case True
    show ?thesis
    proof (cases "isDirectory w wp")
      case (Inl e)
      then show ?thesis using Cons.prems(1) True by simp
    next
      case d: (Inr isDir)
      show ?thesis
      proof (cases isDir)
        case False
        then show ?thesis using Cons True d by simp
      next
        case dir: True
        show ?thesis
        proof (cases "findGitRepos w wp")
          case (Inl e)
          then show ?thesis using Cons True d dir by simp
        next
          case (Inr repos)
          then have sub: "set repos \<subseteq> S" using Cons.prems(2) by simp
          have "\<forall>c \<in> set (fst (fold (scanRepo w) repos acc)). namedByBasename w S c"
            by (rule fold_scanRepo_named[OF sub Cons.prems(3)])
          moreover have "scanWatchPaths w wps (fold (scanRepo w) repos acc) = Inr acc'"
            using Cons.prems(1) True d dir Inr by simp
          ultimately show ?thesis using Cons.IH Cons.prems(2) by simp
        qed
      qed
    qed
  qed
qed

text \<open>
  C9. Every record a scan returns is an internal record without its \<open>_repoPath\<close>: it has
  the seven fields of \<open>RepoChange\<close> and no other, and its \<open>repoName\<close> is the basename of
  the path of a repository found under a watch path.
\<close>

theorem scanRepositories_no_path:
  assumes "scanRepositories w = Some (Inr (records, f))"
  shows "\<exists>internal. records = map withoutRepoPath internal
           \<and> (\<forall>c \<in> set internal. namedByBasename w (set (foundRepos w)) c)
           \<and> (\<forall>r \<in> set records. \<exists>p \<in> set (foundRepos w). repoName r = basename w p)"
proof -
  from assms obtain state where st: "asScannerState (loadState (stateFile w)) = Some state"
    by (auto simp: scanRepositories_def split: option.splits)
  from assms st obtain allChanges state' where
    s: "scanWatchPaths w (watchPaths w) ([], state) = Inr (allChanges, state')"
    and r: "records = map withoutRepoPath allChanges"
    by (auto simp: scanRepositories_def split: sum.splits)
  have n: "\<forall>c \<in> set (fst (allChanges, state')). namedByBasename w (set (foundRepos w)) c"
    by (rule scanWatchPaths_named[OF s]) (auto simp: foundRepos_def)
  have "\<forall>r \<in> set records. \<exists>p \<in> set (foundRepos w). repoName r = basename w p"
    using n r by (auto simp: namedByBasename_def withoutRepoPath_def)
  with n r show ?thesis by auto
qed

text \<open>The state a successful write leaves is read back as it was, and the first pass over
  the example repository.\<close>

lemma decode_strings:
  "decodeEntries asString (map (\<lambda>kv. (fst kv, JStr (snd kv))) al) = Some al"
  by (induction al) (auto simp: asString_def)

lemma asStats_statsJson: "asStats (statsJson s) = Some s"
  by (simp add: asStats_def statsJson_def getProp_def asNumber_def)

lemma decode_stats:
  "decodeEntries asStats (map (\<lambda>kv. (fst kv, statsJson (snd kv))) al) = Some al"
  by (induction al) (auto simp: asStats_statsJson)

lemma load_saved: "asScannerState (loadState (Document (toJson st))) = Some st"
  by (simp add: loadState_def loadStateTry_def toJson_def getProp_def orEmptyObject_def
        truthy_def asScannerState_def asDict_def decode_strings decode_stats)

lemma ex_load: "asScannerState (loadState (stateFile exWorld)) = Some exState"
  by (simp add: exWorld_def load_saved)

lemma ex_find: "findGitRepos exWorld ''/home/u'' = Inr [''/home/u/proj'']"
  by (simp add: findGitRepos_def exWorld_def stripGitSuffix_def)

lemma ex_basename: "basename exWorld ''/home/u/proj'' = ''proj''"
  by (simp add: exWorld_def)

lemma ex_not_excluded:
  "\<not> list_ex (\<lambda>pat. includesStr (basename exWorld ''/home/u/proj'') pat
                       \<or> includesStr ''/home/u/proj'' pat) (excludePatterns exWorld)"
  by (simp add: ex_basename) (simp add: exWorld_def)

lemma ex_commits:
  "getNewCommits exWorld exGit ''/home/u/proj'' exState
     = ([\<lparr>linesAdded = 2, linesDeleted = 0, filesChanged = 1, repoName = ''proj'',
          branch = ''main'', isCommitted = True, commitHash = Some ''b2'',
          repoPath = ''/home/u/proj''\<rparr>,
         \<lparr>linesAdded = 3, linesDeleted = 1, filesChanged = 2, repoName = ''proj'',
          branch = ''main'', isCommitted = True, commitHash = Some ''c3'',
          repoPath = ''/home/u/proj''\<rparr>],
        exState\<lparr>lastCommitHashes := [(''/home/u/proj'', ''c3'')]\<rparr>)"
proof -
  have ne: "''a1'' \<noteq> []" by simp
  show ?thesis
    by (simp add: getNewCommits_known
                    [OF exState_cursor ne exGit_calls(2) exGit_calls(1) exGit_calls(3)]
          reportable_def statOf_def commitRecord_def newestShown_def advanceTo_def exGit_calls
          exStat_b2 exStat_c3 ex_basename trim_main)
       (simp add: exState_def)
qed

lemma ex_uncommitted:
  "getUncommittedChanges exWorld exGit ''/home/u/proj''
     (exState\<lparr>lastCommitHashes := [(''/home/u/proj'', ''c3'')]\<rparr>)
     = (Some \<lparr>linesAdded = 5, linesDeleted = 0, filesChanged = 0, repoName = ''proj'',
              branch = ''main'', isCommitted = False, commitHash = None,
              repoPath = ''/home/u/proj''\<rparr>,
        exStateAfter)"
  by (simp add: getUncommittedChanges_def ex_basename trim_main exGit_def Let_def)
     (simp add: exState_def exStateAfter_def exWorld_def trim_def isSpace_def)

lemma ex_scanRepo:
  "scanRepo exWorld ''/home/u/proj'' ([], exState)
     = ([\<lparr>linesAdded = 2, linesDeleted = 0, filesChanged = 1, repoName = ''proj'',
          branch = ''main'', isCommitted = True, commitHash = Some ''b2'',
          repoPath = ''/home/u/proj''\<rparr>,
         \<lparr>linesAdded = 3, linesDeleted = 1, filesChanged = 2, repoName = ''proj'',
          branch = ''main'', isCommitted = True, commitHash = Some ''c3'',
          repoPath = ''/home/u/proj''\<rparr>,
         \<lparr>linesAdded = 5, linesDeleted = 0, filesChanged = 0, repoName = ''proj'',
          branch = ''main'', isCommitted = False, commitHash = None,
          repoPath = ''/home/u/proj''\<rparr>],
        exStateAfter)"
proof -
  have g: "simpleGit exWorld ''/home/u/proj'' = Inr exGit" by (simp add: exWorld_def)
  show ?thesis
    using ex_not_excluded by (simp add: scanRepo_def g ex_commits ex_uncommitted)
qed

lemma ex_scan:
  "scanRepositories exWorld = Some (Inr (exRecords, Document (toJson exStateAfter)))"
proof -
  have w: "watchPaths exWorld = [''/home/u'']" "existsSync exWorld ''/home/u''"
    "isDirectory exWorld ''/home/u'' = Inr True" "writeResult exWorld = None"
    by (simp_all add: exWorld_def)
  show ?thesis
    by (simp add: scanRepositories_def ex_load w ex_find ex_scanRepo saveState_def
          withoutRepoPath_def exRecords_def)
qed


text \<open>The first pass over the example: three records named \<open>proj\<close>, the basename of the
  one repository found.\<close>

theorem scanRepositories_no_path_witness:
  "scanRepositories exWorld = Some (Inr (exRecords, Document (toJson exStateAfter)))
   \<and> foundRepos exWorld = [''/home/u/proj'']
   \<and> basename exWorld ''/home/u/proj'' = ''proj''
   \<and> map repoName exRecords = [''proj'', ''proj'', ''proj'']"
proof -
  have wp: "watchPaths exWorld = [''/home/u'']" by (simp add: exWorld_def)
  have fr: "foundRepos exWorld = [''/home/u/proj'']"
    by (simp add: foundRepos_def wp ex_find)
  from scanRepositories_no_path[OF ex_scan]
  have "\<forall>r \<in> set exRecords. \<exists>p \<in> set (foundRepos exWorld). repoName r = basename exWorld p"
    by blast
  then have "\<forall>r \<in> set exRecords. repoName r = ''proj''"
    by (simp add: fr ex_basename)
  then have "map repoName exRecords = [''proj'', ''proj'', ''proj'']"
    by (simp add: exRecords_def)
  with ex_scan fr ex_basename show ?thesis by simp
qed

section \<open>Two consecutive passes\<close>




lemma find_None_all: "find P xs = None \<Longrightarrow> x \<in> set xs \<Longrightarrow> \<not> P x"
  by (auto simp: find_None_iff)

lemma quiet_fold:
  assumes "\<forall>x \<in> set cs. statOf g x = None"
  shows "fold (processCommit w g p b) (rev cs) ([], s) = ([], s)"
proof -
  have "filter (reportable g) (rev cs) = []"
    using assms by (auto simp: filter_empty_conv reportable_def)
  moreover have "newestShown g cs = None"
    using assms by (auto simp: newestShown_def find_None_iff)
  ultimately show ?thesis
    by (simp add: fold_processCommit advanceTo_def)
qed
































end
